theory Spec2Isabelle
  imports Complex_Main "HOL-Library.Word" "HOL-Library.Multiset" "HOL-Library.Log_Nat"
begin

section \<open>Strings\<close>

text \<open>
  A JavaScript string is a sequence of UTF-16 code units.  ASCII literals are written
  with \<open>js\<close>, which maps every character of an Isabelle string literal to its code unit.
\<close>

type_synonym jschar = "16 word"
type_synonym jsstring = "jschar list"

definition js :: "string \<Rightarrow> jsstring" where
  "js s = map of_char s"

section \<open>Flashcards and decks (Flashcards component)\<close>

text \<open>
  \<^verbatim>\<open>type Flashcard = { id: string; front: string; back: string; mastered: boolean }\<close>
  \<^verbatim>\<open>type Deck = { id: string; name: string; cards: Flashcard[] }\<close>
\<close>

record flashcard =
  card_id :: jsstring
  card_front :: jsstring
  card_back :: jsstring
  mastered :: bool

record deck =
  deck_id :: jsstring
  deck_name :: jsstring
  deck_cards :: "flashcard list"

text \<open>
  The handlers of the Flashcards component replace its \<open>decks\<close> state; here each takes
  the current deck list and returns the next one.

  \<^verbatim>\<open>const updateDeck = (updatedDeck) => { setDecks(decks.map(d => d.id === updatedDeck.id ? updatedDeck : d)); }\<close>
  \<^verbatim>\<open>const deleteDeck = (deckId) => { setDecks(decks.filter(d => d.id !== deckId)); }\<close>
\<close>

definition updateDeck :: "deck \<Rightarrow> deck list \<Rightarrow> deck list" where
  "updateDeck updatedDeck decks =
     map (\<lambda>d. if deck_id d = deck_id updatedDeck then updatedDeck else d) decks"

definition deleteDeck :: "jsstring \<Rightarrow> deck list \<Rightarrow> deck list" where
  "deleteDeck deckId decks = filter (\<lambda>d. deck_id d \<noteq> deckId) decks"

section \<open>Study session (StudyMode component)\<close>

text \<open>
  StudyMode is mounted with the props \<open>deck\<close> (the parent's \<open>selectedDeck\<close>, set by the
  Study button and by nothing else afterwards) and \<open>onUpdateDeck = updateDeck\<close>.  Its
  own state is \<open>currentIndex\<close>, \<open>isFlipped\<close>, \<open>shuffled\<close>, \<open>cards\<close> and
  \<open>masteredCount\<close>.  The record below holds the prop, the local state and the parent's
  \<open>decks\<close> state, which the handlers reach through \<open>onUpdateDeck\<close>.
\<close>

record session =
  decks :: "deck list"
  deck :: deck
  currentIndex :: nat
  isFlipped :: bool
  shuffled :: bool
  cards :: "flashcard list"
  masteredCount :: nat

text \<open>
  The Study button: \<^verbatim>\<open>setSelectedDeck(deck); setStudyMode(true)\<close>, followed by the
  initial values of the \<^verbatim>\<open>useState\<close> calls of StudyMode.
\<close>

definition startStudy :: "deck \<Rightarrow> deck list \<Rightarrow> session" where
  "startStudy d ds =
     \<lparr>decks = ds, deck = d, currentIndex = 0, isFlipped = False, shuffled = False,
      cards = deck_cards d, masteredCount = length (filter mastered (deck_cards d))\<rparr>"

definition nextCard :: "session \<Rightarrow> session" where
  "nextCard s =
     (if currentIndex s + 1 < length (cards s)
      then s\<lparr>currentIndex := currentIndex s + 1, isFlipped := False\<rparr>
      else s)"

definition prevCard :: "session \<Rightarrow> session" where
  "prevCard s =
     (if currentIndex s > 0
      then s\<lparr>currentIndex := currentIndex s - 1, isFlipped := False\<rparr>
      else s)"

definition flipCard :: "session \<Rightarrow> session" where
  "flipCard s = s\<lparr>isFlipped := \<not> isFlipped s\<rparr>"

text \<open>
  \<^verbatim>\<open>const shuffled = [...cards].sort(() => Math.random() - 0.5)\<close>: the outcome depends on
  the random source and on the engine's sorting algorithm.  The first argument stands for
  that outcome, as a function of the list that is sorted.
\<close>

definition shuffleCards :: "(flashcard list \<Rightarrow> flashcard list) \<Rightarrow> session \<Rightarrow> session" where
  "shuffleCards sortRandom s =
     s\<lparr>cards := sortRandom (cards s), currentIndex := 0, isFlipped := False,
       shuffled := True\<rparr>"

text \<open>
  \<^verbatim>\<open>updated[currentIndex] = { ...updated[currentIndex], mastered }\<close>.  StudyMode renders
  \<^verbatim>\<open>currentCard.mastered\<close> with \<^verbatim>\<open>currentCard = cards[currentIndex]\<close>; with the index out
  of range that read throws during rendering and no handler can run, which is the
  \<open>None\<close> below.
\<close>

definition markMastered :: "bool \<Rightarrow> session \<Rightarrow> session option" where
  "markMastered m s =
     (if currentIndex s < length (cards s)
      then
        (let updated = (cards s)[currentIndex s := (cards s ! currentIndex s)\<lparr>mastered := m\<rparr>]
         in Some (s\<lparr>cards := updated,
                    masteredCount := length (filter mastered updated),
                    decks := updateDeck ((deck s)\<lparr>deck_cards := updated\<rparr>) (decks s)\<rparr>))
      else None)"

definition reset :: "session \<Rightarrow> session" where
  "reset s =
     s\<lparr>currentIndex := 0, isFlipped := False, cards := deck_cards (deck s),
       masteredCount := length (filter mastered (deck_cards (deck s))),
       shuffled := False\<rparr>"

text \<open>
  \<^verbatim>\<open>onUpdateDeck({ ...deck, cards }); onClose();\<close> \<^emph>\<open>onClose\<close> unmounts StudyMode; what is
  left is the parent's deck list.
\<close>

definition handleClose :: "session \<Rightarrow> deck list" where
  "handleClose s = updateDeck ((deck s)\<lparr>deck_cards := cards s\<rparr>) (decks s)"

text \<open>The user's actions during one session, and a run of them.\<close>

datatype action =
  NextCard | PrevCard | FlipCard | ShuffleCards "flashcard list \<Rightarrow> flashcard list"
  | MarkMastered bool | Reset

fun act :: "action \<Rightarrow> session \<Rightarrow> session option" where
  "act NextCard s = Some (nextCard s)"
| "act PrevCard s = Some (prevCard s)"
| "act FlipCard s = Some (flipCard s)"
| "act (ShuffleCards f) s = Some (shuffleCards f s)"
| "act (MarkMastered m) s = markMastered m s"
| "act Reset s = Some (reset s)"

fun run :: "action list \<Rightarrow> session \<Rightarrow> session option" where
  "run [] s = Some s"
| "run (a # as) s = (case act a s of None \<Rightarrow> None | Some s' \<Rightarrow> run as s')"

text \<open>A shuffle is well behaved when it returns a list of the length it was given.\<close>

fun lengthPreserving :: "action \<Rightarrow> bool" where
  "lengthPreserving (ShuffleCards f) = (\<forall>xs. length (f xs) = length xs)"
| "lengthPreserving _ = True"

text \<open>
  What a card is apart from its mastery flag, and the shuffles that return a
  permutation of the list they are given, as a sort does.
\<close>

definition cardFrame :: "flashcard \<Rightarrow> jsstring \<times> jsstring \<times> jsstring" where
  "cardFrame c = (card_id c, card_front c, card_back c)"

fun permuting :: "action \<Rightarrow> bool" where
  "permuting (ShuffleCards f) = (\<forall>xs. mset (f xs) = mset xs)"
| "permuting _ = True"

text \<open>Sample data for the concrete evaluations below.\<close>

definition card1 :: flashcard where
  "card1 = \<lparr>card_id = js ''1'', card_front = js ''What is React?'',
            card_back = js ''A JavaScript library for building user interfaces'',
            mastered = False\<rparr>"

definition card2 :: flashcard where
  "card2 = \<lparr>card_id = js ''2'', card_front = js ''What is TypeScript?'',
            card_back = js ''A typed superset of JavaScript'', mastered = False\<rparr>"

definition sampleDeck :: deck where
  "sampleDeck = \<lparr>deck_id = js ''1'', deck_name = js ''Sample Deck'',
                 deck_cards = [card1, card2]\<rparr>"

section \<open>Bulk import (importCSV)\<close>

text \<open>
  \<^verbatim>\<open>String.prototype.trim\<close> removes white space and line terminators from both ends:
  TAB, LF, VT, FF, CR, SP, NBSP, the other space separators of Unicode, LS, PS and
  ZWNBSP, all of them single code units.
\<close>

definition isWhiteSpace :: "jschar \<Rightarrow> bool" where
  "isWhiteSpace c =
     (c \<in> set [0x0009, 0x000A, 0x000B, 0x000C, 0x000D, 0x0020, 0x00A0, 0x1680, 0x2028,
                0x2029, 0x202F, 0x205F, 0x3000, 0xFEFF]
      \<or> (0x2000 \<le> c \<and> c \<le> 0x200A))"

definition js_trim :: "jsstring \<Rightarrow> jsstring" where
  "js_trim s = rev (dropWhile isWhiteSpace (rev (dropWhile isWhiteSpace s)))"

text \<open>
  \<^verbatim>\<open>String.prototype.split\<close> with a separator of one code unit: the pieces between
  the occurrences of the separator, so a string without the separator gives one piece
  and the result is never empty (the first case of the inner \<open>case\<close> does not occur).
\<close>

fun js_split :: "jschar \<Rightarrow> jsstring \<Rightarrow> jsstring list" where
  "js_split sep [] = [[]]"
| "js_split sep (c # cs) =
     (if c = sep then [] # js_split sep cs
      else (case js_split sep cs of [] \<Rightarrow> [[c]] | w # ws \<Rightarrow> (c # w) # ws))"

text \<open>
  \<^verbatim>\<open>Number.prototype.toString\<close> on a non-negative integer: its decimal digits (for
  integers below \<open>10^21\<close>, which clock readings and list indices are).
\<close>

fun toString :: "nat \<Rightarrow> jsstring" where
  "toString n =
     (if n < 10 then [of_nat (48 + n)]
      else toString (n div 10) @ [of_nat (48 + n mod 10)])"

declare toString.simps [simp del]

text \<open>
  The \<^verbatim>\<open>onload\<close> callback of importCSV, with \<open>text\<close> the content of the file read:
  \<^verbatim>\<open>const lines = text.split('\n').filter(line => line.trim());\<close>
  \<^verbatim>\<open>const newCards = lines.map((line, index) => {\<close>
  \<^verbatim>\<open>  const [front, back] = line.split(',').map(s => s.trim());\<close>
  \<^verbatim>\<open>  return { id: `${Date.now()}-${index}`, front: front || '', back: back || '', mastered: false };\<close>
  \<^verbatim>\<open>}).filter(card => card.front && card.back);\<close>
  \<^verbatim>\<open>setDecks(decks.map(d => d.id === deckId ? { ...d, cards: [...d.cards, ...newCards] } : d));\<close>
  The destructuring takes the first two elements of the array and leaves a missing one
  undefined, which \<^verbatim>\<open>|| ''\<close> turns into the empty string.  \<open>now index\<close> is the reading of
  \<^verbatim>\<open>Date.now()\<close> in the callback for the line at \<open>index\<close>.
\<close>

definition lines_of :: "jsstring \<Rightarrow> jsstring list" where
  "lines_of text = filter (\<lambda>line. js_trim line \<noteq> []) (js_split 0x0A text)"

definition cardOfLine :: "(nat \<Rightarrow> nat) \<Rightarrow> nat \<times> jsstring \<Rightarrow> flashcard" where
  "cardOfLine now = (\<lambda>(index, line).
     (case map js_trim (js_split 0x2C line) of
        [] \<Rightarrow> \<lparr>card_id = toString (now index) @ js ''-'' @ toString index,
               card_front = [], card_back = [], mastered = False\<rparr>
      | [f] \<Rightarrow> \<lparr>card_id = toString (now index) @ js ''-'' @ toString index,
               card_front = f, card_back = [], mastered = False\<rparr>
      | f # b # _ \<Rightarrow> \<lparr>card_id = toString (now index) @ js ''-'' @ toString index,
               card_front = f, card_back = b, mastered = False\<rparr>))"

definition newCards :: "(nat \<Rightarrow> nat) \<Rightarrow> jsstring \<Rightarrow> flashcard list" where
  "newCards now text =
     filter (\<lambda>card. card_front card \<noteq> [] \<and> card_back card \<noteq> [])
       (map (cardOfLine now) (enumerate 0 (lines_of text)))"

definition importCSV ::
  "(nat \<Rightarrow> nat) \<Rightarrow> jsstring \<Rightarrow> jsstring \<Rightarrow> deck list \<Rightarrow> deck list"
where
  "importCSV now deckId text ds =
     map (\<lambda>d. if deck_id d = deckId
              then d\<lparr>deck_cards := deck_cards d @ newCards now text\<rparr> else d) ds"

subsection \<open>Records and their two sides\<close>

text \<open>
  The two sides of a card, and the two sides that a record of the payload stands for:
  the text before its first comma, and the text between its first and its second comma
  (or up to its end), both trimmed.
\<close>

definition cardSides :: "flashcard \<Rightarrow> jsstring \<times> jsstring" where
  "cardSides c = (card_front c, card_back c)"

definition recordFront :: "jsstring \<Rightarrow> jsstring" where
  "recordFront line = js_trim (takeWhile (\<lambda>c. c \<noteq> 0x2C) line)"

definition recordBack :: "jsstring \<Rightarrow> jsstring" where
  "recordBack line =
     js_trim (takeWhile (\<lambda>c. c \<noteq> 0x2C) (drop 1 (dropWhile (\<lambda>c. c \<noteq> 0x2C) line)))"

definition recordSides :: "jsstring \<Rightarrow> jsstring \<times> jsstring" where
  "recordSides line = (recordFront line, recordBack line)"

fun bothPresent :: "jsstring \<times> jsstring \<Rightarrow> bool" where
  "bothPresent (f, b) = (f \<noteq> [] \<and> b \<noteq> [])"

text \<open>
  The reading of the import interface in which a record is cut once, at its first comma.
\<close>

definition splitFirstComma :: "jsstring \<Rightarrow> jsstring \<times> jsstring" where
  "splitFirstComma line =
     (takeWhile (\<lambda>c. c \<noteq> 0x2C) line, drop 1 (dropWhile (\<lambda>c. c \<noteq> 0x2C) line))"

text \<open>Sample data for the concrete evaluations below.\<close>

definition sampleClock :: "nat \<Rightarrow> nat" where
  "sampleClock i = 1700000000000 + i"

definition samplePayload :: jsstring where
  "samplePayload = js ''Q1,A1'' @ [0x0A] @ js ''BadLineNoComma'' @ [0x0A] @ js ''Q2,A2''"

section \<open>Numbers\<close>

text \<open>
  A JavaScript number is an IEEE 754 binary64 value.  A finite value is kept as the
  rational it denotes; \<open>Fin 0\<close> is the positive zero and \<open>NZero\<close> the negative one.
  Each arithmetic operation computes the exact rational result and rounds it to the
  nearest binary64 value, ties to even.
\<close>

datatype number = NaN | PInf | NInf | NZero | Fin rat

text \<open>Powers of two with an integer exponent, and the binary exponent of a positive rational.\<close>

definition pow2 :: "int \<Rightarrow> rat" where
  "pow2 k = (if 0 \<le> k then 2 ^ nat k else 1 / 2 ^ nat (- k))"

definition ilog2 :: "rat \<Rightarrow> int" where
  "ilog2 a = (if 1 \<le> a then bitlen \<lfloor>a\<rfloor> - 1 else - bitlen (\<lceil>1 / a\<rceil> - 1))"

text \<open>The integer nearest to a rational; a tie goes to the even neighbour.\<close>

definition roundHalfEven :: "rat \<Rightarrow> int" where
  "roundHalfEven r =
     (let f = \<lfloor>r\<rfloor>; d = r - of_int f
      in if d < 1 / 2 then f else if 1 / 2 < d then f + 1 else if even f then f else f + 1)"

text \<open>
  Rounding an exact result to binary64: 53 significant bits, the unit in the last place
  never below \<open>pow2 (- 1074)\<close> (gradual underflow, down to a signed zero), and an
  infinity once the rounded magnitude reaches \<open>pow2 1024\<close>.
\<close>

definition roundDouble :: "rat \<Rightarrow> number" where
  "roundDouble x =
     (if x = 0 then Fin 0
      else
        (let a = \<bar>x\<bar>;
             q = max (ilog2 a - 52) (- 1074);
             m = roundHalfEven (a / pow2 q);
             v = of_int m * pow2 q
         in if pow2 1024 \<le> v then (if x < 0 then NInf else PInf)
            else if m = 0 then (if x < 0 then NZero else Fin 0)
            else Fin (if x < 0 then - v else v)))"

text \<open>A value of the model is a binary64 value when rounding leaves it as it is.\<close>

definition isDouble :: "number \<Rightarrow> bool" where
  "isDouble x = (case x of Fin a \<Rightarrow> roundDouble a = Fin a | _ \<Rightarrow> True)"

fun isNaN :: "number \<Rightarrow> bool" where
  "isNaN NaN = True"
| "isNaN _ = False"

fun isNegative :: "number \<Rightarrow> bool" where
  "isNegative NInf = True"
| "isNegative NZero = True"
| "isNegative (Fin a) = (a < 0)"
| "isNegative _ = False"

fun isZero :: "number \<Rightarrow> bool" where
  "isZero NZero = True"
| "isZero (Fin a) = (a = 0)"
| "isZero _ = False"

fun isInfinite :: "number \<Rightarrow> bool" where
  "isInfinite PInf = True"
| "isInfinite NInf = True"
| "isInfinite _ = False"

fun magnitude :: "number \<Rightarrow> rat" where
  "magnitude (Fin a) = \<bar>a\<bar>"
| "magnitude _ = 0"

definition signedZero :: "bool \<Rightarrow> number" where
  "signedZero neg = (if neg then NZero else Fin 0)"

definition signedInf :: "bool \<Rightarrow> number" where
  "signedInf neg = (if neg then NInf else PInf)"

text \<open>
  The operators \<^verbatim>\<open>+\<close>, \<^verbatim>\<open>-\<close>, \<^verbatim>\<open>*\<close> and \<^verbatim>\<open>/\<close> on numbers, with the special cases of
  IEEE 754 for NaN, the infinities and the zeros.
\<close>

fun fneg :: "number \<Rightarrow> number" where
  "fneg NaN = NaN"
| "fneg PInf = NInf"
| "fneg NInf = PInf"
| "fneg NZero = Fin 0"
| "fneg (Fin a) = (if a = 0 then NZero else Fin (- a))"

fun fadd :: "number \<Rightarrow> number \<Rightarrow> number" where
  "fadd NaN _ = NaN"
| "fadd _ NaN = NaN"
| "fadd PInf NInf = NaN"
| "fadd NInf PInf = NaN"
| "fadd PInf _ = PInf"
| "fadd _ PInf = PInf"
| "fadd NInf _ = NInf"
| "fadd _ NInf = NInf"
| "fadd NZero y = y"
| "fadd x NZero = x"
| "fadd (Fin a) (Fin b) = roundDouble (a + b)"

definition fsub :: "number \<Rightarrow> number \<Rightarrow> number" where
  "fsub x y = fadd x (fneg y)"

definition fmul :: "number \<Rightarrow> number \<Rightarrow> number" where
  "fmul x y =
     (if isNaN x \<or> isNaN y then NaN
      else if (isInfinite x \<and> isZero y) \<or> (isZero x \<and> isInfinite y) then NaN
      else if isInfinite x \<or> isInfinite y then signedInf (isNegative x \<noteq> isNegative y)
      else if isZero x \<or> isZero y then signedZero (isNegative x \<noteq> isNegative y)
      else (let r = roundDouble (magnitude x * magnitude y)
            in if isNegative x \<noteq> isNegative y then fneg r else r))"

definition fdiv :: "number \<Rightarrow> number \<Rightarrow> number" where
  "fdiv x y =
     (if isNaN x \<or> isNaN y then NaN
      else if (isInfinite x \<and> isInfinite y) \<or> (isZero x \<and> isZero y) then NaN
      else if isInfinite x \<or> isZero y then signedInf (isNegative x \<noteq> isNegative y)
      else if isInfinite y \<or> isZero x then signedZero (isNegative x \<noteq> isNegative y)
      else (let r = roundDouble (magnitude x / magnitude y)
            in if isNegative x \<noteq> isNegative y then fneg r else r))"

text \<open>
  The comparisons \<^verbatim>\<open><\<close>, \<^verbatim>\<open>>\<close>, \<^verbatim>\<open><=\<close> and \<^verbatim>\<open>>=\<close>: false whenever an operand is
  NaN; the two zeros compare equal.
\<close>

fun flt :: "number \<Rightarrow> number \<Rightarrow> bool" where
  "flt NaN _ = False"
| "flt _ NaN = False"
| "flt _ NInf = False"
| "flt NInf _ = True"
| "flt PInf _ = False"
| "flt _ PInf = True"
| "flt NZero NZero = False"
| "flt NZero (Fin b) = (0 < b)"
| "flt (Fin a) NZero = (a < 0)"
| "flt (Fin a) (Fin b) = (a < b)"

fun feq :: "number \<Rightarrow> number \<Rightarrow> bool" where
  "feq NaN _ = False"
| "feq _ NaN = False"
| "feq PInf y = (y = PInf)"
| "feq NInf y = (y = NInf)"
| "feq NZero y = isZero y"
| "feq (Fin a) NZero = (a = 0)"
| "feq (Fin a) (Fin b) = (a = b)"
| "feq (Fin a) _ = False"

definition fgt :: "number \<Rightarrow> number \<Rightarrow> bool" where
  "fgt x y = flt y x"

definition fle :: "number \<Rightarrow> number \<Rightarrow> bool" where
  "fle x y = (flt x y \<or> feq x y)"

definition fge :: "number \<Rightarrow> number \<Rightarrow> bool" where
  "fge x y = fle y x"

section \<open>Courses and grade scales (GPACalculator component)\<close>

text \<open>
  \<^verbatim>\<open>type Course = { id: string; name: string; grade: string; credits: number }\<close>
  \<^verbatim>\<open>type GPAScale = "4.0" | "4.3"\<close>
\<close>

record course =
  course_id :: jsstring
  course_name :: jsstring
  grade :: jsstring
  credits :: number

datatype GPAScale = Scale_4_0 | Scale_4_3

text \<open>
  The two grade tables.  A numeric literal of the source denotes the binary64 value
  nearest to it.
\<close>

definition GRADE_VALUES_4_0 :: "(jsstring \<times> number) list" where
  "GRADE_VALUES_4_0 =
     [(js ''A+'', roundDouble 4), (js ''A'', roundDouble 4), (js ''A-'', roundDouble (37 / 10)),
      (js ''B+'', roundDouble (33 / 10)), (js ''B'', roundDouble 3), (js ''B-'', roundDouble (27 / 10)),
      (js ''C+'', roundDouble (23 / 10)), (js ''C'', roundDouble 2), (js ''C-'', roundDouble (17 / 10)),
      (js ''D+'', roundDouble (13 / 10)), (js ''D'', roundDouble 1), (js ''F'', roundDouble 0)]"

definition GRADE_VALUES_4_3 :: "(jsstring \<times> number) list" where
  "GRADE_VALUES_4_3 =
     [(js ''A+'', roundDouble (43 / 10)), (js ''A'', roundDouble 4), (js ''A-'', roundDouble (37 / 10)),
      (js ''B+'', roundDouble (33 / 10)), (js ''B'', roundDouble 3), (js ''B-'', roundDouble (27 / 10)),
      (js ''C+'', roundDouble (23 / 10)), (js ''C'', roundDouble 2), (js ''C-'', roundDouble (17 / 10)),
      (js ''D+'', roundDouble (13 / 10)), (js ''D'', roundDouble 1), (js ''F'', roundDouble 0)]"

definition gradeValues :: "GPAScale \<Rightarrow> (jsstring \<times> number) list" where
  "gradeValues scale = (case scale of Scale_4_0 \<Rightarrow> GRADE_VALUES_4_0 | Scale_4_3 \<Rightarrow> GRADE_VALUES_4_3)"

definition maxGPA :: "GPAScale \<Rightarrow> number" where
  "maxGPA scale = (case scale of Scale_4_0 \<Rightarrow> roundDouble 4 | Scale_4_3 \<Rightarrow> roundDouble (43 / 10))"

text \<open>
  \<^verbatim>\<open>gradeValues[course.grade] * course.credits\<close>: a grade that is not a key of the table
  reads as undefined (or as a member of \<^verbatim>\<open>Object.prototype\<close>), and its product with a
  number is NaN.
\<close>

definition gradePoints :: "GPAScale \<Rightarrow> course \<Rightarrow> number" where
  "gradePoints scale c =
     (case map_of (gradeValues scale) (grade c) of
        Some v \<Rightarrow> fmul v (credits c)
      | None \<Rightarrow> NaN)"

text \<open>
  The body of the loop over the courses, which \<open>gpa\<close> and \<open>targetGPAAnalysis\<close> both
  contain, on the pair of running totals:
  \<^verbatim>\<open>if (course.grade && course.credits > 0) {\<close>
  \<^verbatim>\<open>  totalPoints += gradeValues[course.grade] * course.credits;\<close>
  \<^verbatim>\<open>  totalCredits += course.credits; }\<close>
\<close>

definition accumulate :: "GPAScale \<Rightarrow> number \<times> number \<Rightarrow> course \<Rightarrow> number \<times> number" where
  "accumulate scale totals c =
     (if grade c \<noteq> [] \<and> fgt (credits c) (Fin 0)
      then (fadd (fst totals) (gradePoints scale c), fadd (snd totals) (credits c))
      else totals)"

definition totalsOf :: "GPAScale \<Rightarrow> course list \<Rightarrow> number \<times> number" where
  "totalsOf scale courses = foldl (accumulate scale) (Fin 0, Fin 0) courses"

text \<open>\<^verbatim>\<open>return totalCredits > 0 ? totalPoints / totalCredits : 0;\<close>\<close>

definition gpa :: "course list \<Rightarrow> GPAScale \<Rightarrow> number" where
  "gpa courses scale =
     (let (totalPoints, totalCredits) = totalsOf scale courses
      in if fgt totalCredits (Fin 0) then fdiv totalPoints totalCredits else Fin 0)"

subsection \<open>Target analysis\<close>

text \<open>
  The object returned by \<open>targetGPAAnalysis\<close>.  A message built from a template is
  kept with the numbers the template formats; \<open>requiredGPA\<close> is a missing property, null
  or a number.
\<close>

datatype message =
  TargetExceedsMaximum number
  | TargetAchieved
  | TargetNotAchievable
  | ImpossibleWouldNeed number
  | TargetAlreadyExceeded
  | NeedInRemaining number number

datatype required = Missing | Null | Figure number

record analysis =
  possible :: bool
  message :: message
  requiredGPA :: required

text \<open>
  \<open>targetGPAAnalysis\<close>, with \<open>None\<close> for null.  \<open>parseFloat\<close> is the global function of
  the language, taken as a parameter; \<open>targetGPA\<close> is the text of the input field.
\<close>

definition targetGPAAnalysis ::
  "(jsstring \<Rightarrow> number) \<Rightarrow> jsstring \<Rightarrow> GPAScale \<Rightarrow> course list \<Rightarrow> number \<Rightarrow> analysis option"
where
  "targetGPAAnalysis parseFloat targetGPA scale courses totalCreditsRequired =
     (if targetGPA = [] \<or> isNaN (parseFloat targetGPA) then None
      else
        (let target = parseFloat targetGPA in
         if fgt target (maxGPA scale)
         then Some \<lparr>possible = False, message = TargetExceedsMaximum (maxGPA scale),
                     requiredGPA = Missing\<rparr>
         else
           (let (currentTotalPoints, currentCredits) = totalsOf scale courses;
                remainingCreditsNeeded = fsub totalCreditsRequired currentCredits in
            if fle remainingCreditsNeeded (Fin 0)
            then Some \<lparr>possible = fge (gpa courses scale) target,
                        message = (if fge (gpa courses scale) target then TargetAchieved
                                   else TargetNotAchievable),
                        requiredGPA = Null\<rparr>
            else
              (let requiredTotalPoints = fmul target totalCreditsRequired;
                   requiredRemainingPoints = fsub requiredTotalPoints currentTotalPoints;
                   requiredGPAForRemaining = fdiv requiredRemainingPoints remainingCreditsNeeded in
               if fgt requiredGPAForRemaining (maxGPA scale)
               then Some \<lparr>possible = False,
                           message = ImpossibleWouldNeed requiredGPAForRemaining,
                           requiredGPA = Figure requiredGPAForRemaining\<rparr>
               else if flt requiredGPAForRemaining (Fin 0)
               then Some \<lparr>possible = True, message = TargetAlreadyExceeded,
                           requiredGPA = Figure (Fin 0)\<rparr>
               else Some \<lparr>possible = True,
                           message = NeedInRemaining requiredGPAForRemaining remainingCreditsNeeded,
                           requiredGPA = Figure requiredGPAForRemaining\<rparr>))))"

subsection \<open>Editing the course list\<close>

text \<open>
  \<^verbatim>\<open>const addCourse = () => { setCourses([...courses, { id: Date.now().toString(), name: "", grade: "", credits: 0 }]); }\<close>
  with \<open>now\<close> the reading of \<^verbatim>\<open>Date.now()\<close>.
\<close>

definition addCourse :: "nat \<Rightarrow> course list \<Rightarrow> course list" where
  "addCourse now courses =
     courses @ [\<lparr>course_id = toString now, course_name = [], grade = [], credits = Fin 0\<rparr>]"

text \<open>
  \<^verbatim>\<open>updates: Partial<Course>\<close>, merged over the course by \<^verbatim>\<open>{ ...c, ...updates }\<close>.
\<close>

record updates =
  upd_id :: "jsstring option"
  upd_name :: "jsstring option"
  upd_grade :: "jsstring option"
  upd_credits :: "number option"

definition merge :: "course \<Rightarrow> updates \<Rightarrow> course" where
  "merge c u =
     \<lparr>course_id = (case upd_id u of Some v \<Rightarrow> v | None \<Rightarrow> course_id c),
      course_name = (case upd_name u of Some v \<Rightarrow> v | None \<Rightarrow> course_name c),
      grade = (case upd_grade u of Some v \<Rightarrow> v | None \<Rightarrow> grade c),
      credits = (case upd_credits u of Some v \<Rightarrow> v | None \<Rightarrow> credits c)\<rparr>"

definition updateCourse :: "jsstring \<Rightarrow> updates \<Rightarrow> course list \<Rightarrow> course list" where
  "updateCourse i u courses = map (\<lambda>c. if course_id c = i then merge c u else c) courses"

text \<open>
  \<^verbatim>\<open>const deleteCourse = (id) => { if (courses.length > 1) { setCourses(courses.filter((c) => c.id !== id)); } }\<close>
\<close>

definition deleteCourse :: "jsstring \<Rightarrow> course list \<Rightarrow> course list" where
  "deleteCourse i courses =
     (if length courses > 1 then filter (\<lambda>c. course_id c \<noteq> i) courses else courses)"

text \<open>The edits of the course list that the form can make, and a run of them.\<close>

datatype courseEvent =
  AddCourse nat | UpdateCourse jsstring updates | DeleteCourse jsstring

fun handleEvent :: "course list \<Rightarrow> courseEvent \<Rightarrow> course list" where
  "handleEvent courses (AddCourse now) = addCourse now courses"
| "handleEvent courses (UpdateCourse i u) = updateCourse i u courses"
| "handleEvent courses (DeleteCourse i) = deleteCourse i courses"

definition runEvents :: "courseEvent list \<Rightarrow> course list \<Rightarrow> course list" where
  "runEvents es courses = foldl handleEvent courses es"

text \<open>
  An event keeps the ids of the list pairwise distinct when an added course gets an id
  that no course of the list has yet, and when an update does not touch the id (the
  form updates the name, the grade or the credits only).
\<close>

fun keepsIds :: "course list \<Rightarrow> courseEvent \<Rightarrow> bool" where
  "keepsIds courses (AddCourse now) = (toString now \<notin> set (map course_id courses))"
| "keepsIds courses (UpdateCourse i u) = (upd_id u = None)"
| "keepsIds courses (DeleteCourse i) = True"

fun keepIds :: "courseEvent list \<Rightarrow> course list \<Rightarrow> bool" where
  "keepIds [] courses = True"
| "keepIds (e # es) courses = (keepsIds courses e \<and> keepIds es (handleEvent courses e))"

text \<open>Sample data for the concrete evaluations below.\<close>

definition course1 :: course where
  "course1 = \<lparr>course_id = js ''1'', course_name = js ''Course 1'', grade = [], credits = Fin 3\<rparr>"


subsection \<open>The totals in the words of the specification\<close>

text \<open>
  A course contributes when its grade is non-empty and its credits are greater than 0.
  The sums run over the contributing courses in list order, in floating point, from the
  initial total 0.
\<close>

definition contributes :: "course \<Rightarrow> bool" where
  "contributes c = (grade c \<noteq> [] \<and> fgt (credits c) (Fin 0))"

definition fsum :: "number list \<Rightarrow> number" where
  "fsum xs = foldl fadd (Fin 0) xs"

definition currentPoints :: "GPAScale \<Rightarrow> course list \<Rightarrow> number" where
  "currentPoints scale courses = fsum (map (gradePoints scale) (filter contributes courses))"

definition currentCredits :: "course list \<Rightarrow> number" where
  "currentCredits courses = fsum (map credits (filter contributes courses))"

definition weightedAverage :: "GPAScale \<Rightarrow> course list \<Rightarrow> number" where
  "weightedAverage scale courses = fdiv (currentPoints scale courses) (currentCredits courses)"

text \<open>
  A parser for plain decimal literals (digits, optionally a point and more digits), on
  which it agrees with \<^verbatim>\<open>parseFloat\<close>; everything else it maps to NaN.  It stands for
  \<^verbatim>\<open>parseFloat\<close> in the concrete evaluations.
\<close>

definition isDigit :: "jschar \<Rightarrow> bool" where
  "isDigit c = (0x30 \<le> c \<and> c \<le> 0x39)"

definition digitsValue :: "jsstring \<Rightarrow> nat" where
  "digitsValue s = foldl (\<lambda>n c. 10 * n + (unat c - 48)) 0 s"

definition parseDecimal :: "jsstring \<Rightarrow> number" where
  "parseDecimal s =
     (let ip = takeWhile (\<lambda>c. c \<noteq> 0x2E) s;
          fp = drop 1 (dropWhile (\<lambda>c. c \<noteq> 0x2E) s)
      in if ip @ fp \<noteq> [] \<and> list_all isDigit (ip @ fp)
         then roundDouble (of_nat (digitsValue (ip @ fp)) / 10 ^ length fp)
         else NaN)"

definition courseA :: course where
  "courseA = \<lparr>course_id = js ''1'', course_name = js ''Course 1'', grade = js ''A'', credits = Fin 3\<rparr>"

definition courseB :: course where
  "courseB = \<lparr>course_id = js ''2'', course_name = js ''Course 2'', grade = js ''B'', credits = Fin 3\<rparr>"

definition courseAminus :: course where
  "courseAminus = \<lparr>course_id = js ''3'', course_name = js ''Course 3'', grade = js ''A-'', credits = Fin 1\<rparr>"

definition courseBminus :: course where
  "courseBminus = \<lparr>course_id = js ''4'', course_name = js ''Course 4'', grade = js ''B-'', credits = Fin 1\<rparr>"

definition courseCminus :: course where
  "courseCminus = \<lparr>course_id = js ''5'', course_name = js ''Course 5'', grade = js ''C-'', credits = Fin 1\<rparr>"

definition courseC60 :: course where
  "courseC60 = \<lparr>course_id = js ''6'', course_name = js ''Course 6'', grade = js ''C'', credits = Fin 60\<rparr>"

section \<open>The session never changes its deck prop\<close>

lemma js_simps: "js [] = []" "js (c # cs) = of_char c # js cs"
  by (simp_all add: js_def)

lemma act_deck: "act a s = Some s' \<Longrightarrow> deck s' = deck s"
  by (cases a) (auto simp: nextCard_def prevCard_def flipCard_def shuffleCards_def
      markMastered_def reset_def Let_def split: if_splits)

lemma run_deck: "run as s = Some s' \<Longrightarrow> deck s' = deck s"
proof (induction as arbitrary: s)
  case Nil
  then show ?case by simp
next
  case (Cons a as)
  then show ?case by (auto split: option.splits dest: act_deck)
qed

lemma updateDeck_absorb:
  "deck_id u = deck_id v \<Longrightarrow> updateDeck v (updateDeck u ds) = updateDeck v ds"
  by (induction ds) (auto simp: updateDeck_def)

lemma act_decks:
  "act a s = Some s' \<Longrightarrow> deck_id v = deck_id (deck s) \<Longrightarrow>
   updateDeck v (decks s') = updateDeck v (decks s)"
  by (cases a) (auto simp: nextCard_def prevCard_def flipCard_def shuffleCards_def
      markMastered_def reset_def Let_def updateDeck_absorb split: if_splits)

lemma run_decks:
  "run as s = Some s' \<Longrightarrow> deck_id v = deck_id (deck s) \<Longrightarrow>
   updateDeck v (decks s') = updateDeck v (decks s)"
proof (induction as arbitrary: s)
  case Nil
  then show ?case by simp
next
  case (Cons a as)
  from Cons.prems obtain t where t: "act a s = Some t" "run as t = Some s'"
    by (auto split: option.splits)
  have "deck t = deck s" using t(1) by (rule act_deck)
  with Cons.IH[OF t(2)] Cons.prems(2) have "updateDeck v (decks s') = updateDeck v (decks t)"
    by simp
  also have "\<dots> = updateDeck v (decks s)" using act_decks[OF t(1) Cons.prems(2)] .
  finally show ?case .
qed

text \<open>
  A session on a deck with at least one card never reaches a state that cannot be
  rendered, as long as every shuffle returns a list of the length it was given.
\<close>

lemma act_rendered:
  assumes "currentIndex s < length (cards s)" "length (cards s) = length (deck_cards (deck s))"
    "lengthPreserving a"
  shows "\<exists>s'. act a s = Some s' \<and> currentIndex s' < length (cards s')
               \<and> length (cards s') = length (deck_cards (deck s'))"
  using assms
  by (cases a) (auto simp: nextCard_def prevCard_def flipCard_def shuffleCards_def
      markMastered_def reset_def Let_def)

lemma run_rendered:
  assumes "currentIndex s < length (cards s)" "length (cards s) = length (deck_cards (deck s))"
    "list_all lengthPreserving as"
  shows "\<exists>s'. run as s = Some s'"
  using assms
proof (induction as arbitrary: s)
  case Nil
  then show ?case by simp
next
  case (Cons a as)
  from Cons.prems(3) have a: "lengthPreserving a" and as: "list_all lengthPreserving as"
    by simp_all
  from act_rendered[OF Cons.prems(1,2) a]
  obtain t where t: "act a s = Some t" "currentIndex t < length (cards t)"
    "length (cards t) = length (deck_cards (deck t))"
    by blast
  from Cons.IH[OF t(2,3) as] t(1) show ?case by simp
qed

lemma run_startStudy_total:
  "deck_cards d \<noteq> [] \<Longrightarrow> list_all lengthPreserving as \<Longrightarrow>
   \<exists>s. run as (startStudy d ds) = Some s"
  by (rule run_rendered) (simp_all add: startStudy_def)

section \<open>Shuffle, mark, reset\<close>




section \<open>Closing a session\<close>

text \<open>
  Marking a card changes its mastery flag only, and a permuting shuffle changes the
  order only: the working list always holds the cards of the deck prop, up to their
  order and their mastery flags.
\<close>

lemma cardFrame_mastered: "cardFrame (c\<lparr>mastered := m\<rparr>) = cardFrame c"
  by (simp add: cardFrame_def)

lemma frames_update:
  "i < length xs \<Longrightarrow> map cardFrame (xs[i := (xs ! i)\<lparr>mastered := m\<rparr>]) = map cardFrame xs"
  by (simp add: map_update cardFrame_mastered list_update_same_conv)

lemma frames_permuted:
  "mset ys = mset xs \<Longrightarrow> mset (map cardFrame ys) = mset (map cardFrame xs)"
  by (metis mset_map)

lemma act_frames:
  assumes "act a s = Some s'" "permuting a"
    "mset (map cardFrame (cards s)) = mset (map cardFrame (deck_cards (deck s)))"
  shows "mset (map cardFrame (cards s')) = mset (map cardFrame (deck_cards (deck s')))"
proof (cases a)
  case (ShuffleCards f)
  with assms(2) have "mset (f (cards s)) = mset (cards s)" by simp
  then have "mset (map cardFrame (f (cards s))) = mset (map cardFrame (cards s))"
    by (rule frames_permuted)
  with assms(1,3) ShuffleCards show ?thesis by (auto simp: shuffleCards_def)
next
  case (MarkMastered m)
  with assms(1) have i: "currentIndex s < length (cards s)"
    and c: "cards s' = (cards s)[currentIndex s := (cards s ! currentIndex s)\<lparr>mastered := m\<rparr>]"
    and d: "deck s' = deck s"
    by (auto simp: markMastered_def Let_def split: if_splits)
  have "map cardFrame (cards s') = map cardFrame (cards s)"
    unfolding c by (rule frames_update[OF i])
  with assms(3) d show ?thesis by (simp only:)
qed (use assms(1,3) in \<open>auto simp: nextCard_def prevCard_def flipCard_def reset_def\<close>)

lemma run_frames:
  assumes "run as s = Some s'" "list_all permuting as"
    "mset (map cardFrame (cards s)) = mset (map cardFrame (deck_cards (deck s)))"
  shows "mset (map cardFrame (cards s')) = mset (map cardFrame (deck_cards (deck s')))"
  using assms
proof (induction as arbitrary: s)
  case Nil
  then show ?case by simp
next
  case (Cons a as)
  from Cons.prems(1) obtain t where t: "act a s = Some t" "run as t = Some s'"
    by (auto split: option.splits)
  from Cons.prems(2) have p: "permuting a" "list_all permuting as" by simp_all
  from act_frames[OF t(1) p(1) Cons.prems(3)] Cons.IH[OF t(2) p(2)] show ?case by simp
qed

text \<open>
  C6 (as amended).  Closing a session replaces every deck of the collection that
  carries the id of the studied deck by that deck with the working list as its cards,
  and leaves every deck with another id as it was.  The deck keeps the id and the name
  it had at opening, and its cards are the cards it had at opening as far as their id,
  front and back go (shuffles being permutations); their mastery flags and also their
  order are those of the working list, so a shuffle that no reset undid becomes the
  order of the deck.
\<close>

theorem handleClose_persists_working_list:
  assumes "run as (startStudy d ds) = Some s"
  shows "handleClose s
         = map (\<lambda>x. if deck_id x = deck_id d then d\<lparr>deck_cards := cards s\<rparr> else x) ds
         \<and> (list_all permuting as
              \<longrightarrow> mset (map cardFrame (cards s)) = mset (map cardFrame (deck_cards d)))"
proof -
  have d: "deck s = d" using run_deck[OF assms] by (simp add: startStudy_def)
  have "updateDeck (d\<lparr>deck_cards := cards s\<rparr>) (decks s)
        = updateDeck (d\<lparr>deck_cards := cards s\<rparr>) (decks (startStudy d ds))"
    by (rule run_decks[OF assms]) (simp add: startStudy_def)
  then have a: "handleClose s
         = map (\<lambda>x. if deck_id x = deck_id d then d\<lparr>deck_cards := cards s\<rparr> else x) ds"
    using d by (simp add: handleClose_def updateDeck_def startStudy_def)
  have "mset (map cardFrame (cards s)) = mset (map cardFrame (deck_cards d))"
    if "list_all permuting as"
    using run_frames[OF assms that] d by (simp add: startStudy_def)
  with a show ?thesis by simp
qed

theorem handleClose_persists_working_list_witness:
  "run [MarkMastered True, ShuffleCards rev] (startStudy sampleDeck [sampleDeck])
     = Some \<lparr>decks = [sampleDeck\<lparr>deck_cards := [card1\<lparr>mastered := True\<rparr>, card2]\<rparr>],
             deck = sampleDeck, currentIndex = 0, isFlipped = False, shuffled = True,
             cards = [card2, card1\<lparr>mastered := True\<rparr>], masteredCount = 1\<rparr>
   \<and> list_all permuting [MarkMastered True, ShuffleCards rev]
   \<and> handleClose \<lparr>decks = [sampleDeck\<lparr>deck_cards := [card1\<lparr>mastered := True\<rparr>, card2]\<rparr>],
             deck = sampleDeck, currentIndex = 0, isFlipped = False, shuffled = True,
             cards = [card2, card1\<lparr>mastered := True\<rparr>], masteredCount = 1\<rparr>
     = [sampleDeck\<lparr>deck_cards := [card2, card1\<lparr>mastered := True\<rparr>]\<rparr>]
   \<and> mset (map cardFrame [card2, card1\<lparr>mastered := True\<rparr>])
     = mset (map cardFrame (deck_cards sampleDeck))"
proof -
  have r: "run [MarkMastered True, ShuffleCards rev] (startStudy sampleDeck [sampleDeck])
     = Some \<lparr>decks = [sampleDeck\<lparr>deck_cards := [card1\<lparr>mastered := True\<rparr>, card2]\<rparr>],
             deck = sampleDeck, currentIndex = 0, isFlipped = False, shuffled = True,
             cards = [card2, card1\<lparr>mastered := True\<rparr>], masteredCount = 1\<rparr>"
    by (simp add: startStudy_def shuffleCards_def markMastered_def updateDeck_def
        sampleDeck_def card1_def card2_def Let_def)
  have p: "list_all permuting [MarkMastered True, ShuffleCards rev]" by simp
  from handleClose_persists_working_list[OF r] r p show ?thesis by simp
qed

text \<open>
  The claim as written fails: a session on the sample deck that shuffles into reverse
  order and is then closed leaves the deck with its cards in the shuffled order.
\<close>

theorem close_persists_shuffle:
  "map (map card_id \<circ> deck_cards) [sampleDeck] = [[js ''1'', js ''2'']]
   \<and> map (map card_id \<circ> deck_cards)
       (handleClose (shuffleCards rev (startStudy sampleDeck [sampleDeck])))
     = [[js ''2'', js ''1'']]"
  by (simp add: startStudy_def shuffleCards_def handleClose_def updateDeck_def
        sampleDeck_def card1_def card2_def)

section \<open>Bulk import\<close>

lemma js_split_unfold:
  "js_split sep xs =
     takeWhile (\<lambda>c. c \<noteq> sep) xs #
       (case dropWhile (\<lambda>c. c \<noteq> sep) xs of [] \<Rightarrow> [] | _ # r \<Rightarrow> js_split sep r)"
  by (induction xs) (auto split: list.splits)

lemma dropWhile_all: "(\<forall>c \<in> set s. P c) \<Longrightarrow> dropWhile P s = []"
  by (induction s) simp_all

lemma dropWhile_Nil_all: "dropWhile P s = [] \<Longrightarrow> (\<forall>c \<in> set s. P c)"
  by (induction s) (auto split: if_splits)

lemma js_trim_empty: "js_trim s = [] \<longleftrightarrow> (\<forall>c \<in> set s. isWhiteSpace c)"
proof
  assume "js_trim s = []"
  then have "dropWhile isWhiteSpace (rev (dropWhile isWhiteSpace s)) = []"
    by (simp add: js_trim_def)
  then have "\<forall>c \<in> set (rev (dropWhile isWhiteSpace s)). isWhiteSpace c"
    by (rule dropWhile_Nil_all)
  then have all: "\<forall>c \<in> set (dropWhile isWhiteSpace s). isWhiteSpace c"
    by simp
  have "dropWhile isWhiteSpace s = []"
  proof (cases "dropWhile isWhiteSpace s")
    case Nil
    then show ?thesis .
  next
    case (Cons c cs)
    then have "\<not> isWhiteSpace c" using hd_dropWhile[of isWhiteSpace s] by simp
    with all Cons show ?thesis by simp
  qed
  then show "\<forall>c \<in> set s. isWhiteSpace c" by (rule dropWhile_Nil_all)
next
  assume "\<forall>c \<in> set s. isWhiteSpace c"
  then have d: "dropWhile isWhiteSpace s = []" by (rule dropWhile_all)
  show "js_trim s = []" unfolding js_trim_def d by simp
qed

lemma comma_not_space: "\<not> isWhiteSpace 0x2C"
  by (simp add: isWhiteSpace_def)

lemma blank_line_no_front:
  assumes "js_trim line = []"
  shows "recordFront line = []"
proof -
  from assms have ws: "\<forall>c \<in> set line. isWhiteSpace c" by (simp add: js_trim_empty)
  then have "\<forall>c \<in> set line. c \<noteq> 0x2C" using comma_not_space by auto
  then have tw: "takeWhile (\<lambda>c. c \<noteq> 0x2C) line = line" by (simp add: takeWhile_eq_all_conv)
  show ?thesis unfolding recordFront_def tw by (rule assms)
qed

lemma js_trim_Nil: "js_trim [] = []"
  by (simp add: js_trim_def)

lemma cardOfLine_sides: "cardSides (cardOfLine now (i, line)) = recordSides line"
proof (cases "dropWhile (\<lambda>c. c \<noteq> 0x2C) line")
  case Nil
  have "js_split 0x2C line = [takeWhile (\<lambda>c. c \<noteq> 0x2C) line]"
    by (subst js_split_unfold) (simp only: Nil list.case)
  then show ?thesis
    by (simp add: cardOfLine_def cardSides_def recordSides_def recordFront_def recordBack_def
        Nil js_trim_Nil del: dropWhile_eq_Nil_conv)
next
  case (Cons c r)
  have "js_split 0x2C line = takeWhile (\<lambda>c. c \<noteq> 0x2C) line # js_split 0x2C r"
    by (subst js_split_unfold) (simp only: Cons list.case)
  also have "js_split 0x2C r
             = takeWhile (\<lambda>c. c \<noteq> 0x2C) r #
               (case dropWhile (\<lambda>c. c \<noteq> 0x2C) r of [] \<Rightarrow> [] | _ # r' \<Rightarrow> js_split 0x2C r')"
    by (rule js_split_unfold)
  finally show ?thesis
    by (simp add: cardOfLine_def cardSides_def recordSides_def recordFront_def recordBack_def
        Cons del: dropWhile_eq_Nil_conv)
qed

lemma cardOfLine_mastered: "\<not> mastered (cardOfLine now p)"
  by (cases p) (simp add: cardOfLine_def split: list.splits)

lemma map_sides_enumerate:
  "map (cardSides \<circ> cardOfLine now) (enumerate n ls) = map recordSides ls"
  by (induction ls arbitrary: n) (simp_all add: cardOfLine_sides)

lemma filter_blank_absorbed:
  "filter bothPresent (map recordSides (filter (\<lambda>line. js_trim line \<noteq> []) ls))
   = filter bothPresent (map recordSides ls)"
  by (induction ls) (auto simp: recordSides_def blank_line_no_front)

lemma newCards_sides:
  "map cardSides (newCards now text) = filter bothPresent (map recordSides (js_split 0x0A text))"
proof -
  have "map cardSides (newCards now text)
        = filter bothPresent (map (cardSides \<circ> cardOfLine now) (enumerate 0 (lines_of text)))"
    by (simp add: newCards_def filter_map comp_def cardSides_def)
  also have "\<dots> = filter bothPresent (map recordSides (lines_of text))"
    by (simp only: map_sides_enumerate)
  also have "\<dots> = filter bothPresent (map recordSides (js_split 0x0A text))"
    by (simp only: lines_of_def filter_blank_absorbed)
  finally show ?thesis .
qed

lemma newCards_unmastered: "map mastered (newCards now text) = replicate (length (newCards now text)) False"
proof -
  have "\<forall>c \<in> set (newCards now text). mastered c = False"
    by (auto simp: newCards_def cardOfLine_mastered)
  then show ?thesis by (simp add: map_replicate_const[symmetric] cong: map_cong)
qed

text \<open>
  C7 (as amended).  Bulk import appends, after the existing cards of the target deck
  and leaving every other deck alone, one unmastered card for each newline-separated
  record whose two sides are both non-empty, in the order of the records.  The front
  of a record is the text before its first comma, the back is the text between its
  first and its second comma (up to the end of the record when there is no second
  comma), both with the surrounding white space removed; whatever follows a second
  comma is discarded.  The payload of the specification's example yields exactly the
  two cards Q1/A1 and Q2/A2.
\<close>

theorem importCSV_records:
  "importCSV now deckId text ds
     = map (\<lambda>d. if deck_id d = deckId
                 then d\<lparr>deck_cards := deck_cards d @ newCards now text\<rparr> else d) ds
   \<and> map cardSides (newCards now text)
     = filter bothPresent (map recordSides (js_split 0x0A text))
   \<and> map mastered (newCards now text) = replicate (length (newCards now text)) False
   \<and> map cardSides (newCards now samplePayload)
     = [(js ''Q1'', js ''A1''), (js ''Q2'', js ''A2'')]"
proof -
  have "map cardSides (newCards now samplePayload)
        = filter bothPresent (map recordSides (js_split 0x0A samplePayload))"
    by (rule newCards_sides)
  also have "\<dots> = [(js ''Q1'', js ''A1''), (js ''Q2'', js ''A2'')]"
    by code_simp
  finally show ?thesis
    using newCards_sides newCards_unmastered by (simp add: importCSV_def)
qed

text \<open>
  The claim as written fails: the record \<open>Q,A,B\<close> becomes the card Q/A, whereas cutting
  it at its first comma gives the back \<open>A,B\<close>.
\<close>

theorem import_splits_at_every_comma:
  "map cardSides (newCards sampleClock (js ''Q,A,B'')) = [(js ''Q'', js ''A'')]
   \<and> splitFirstComma (js ''Q,A,B'') = (js ''Q'', js ''A,B'')"
  by (simp add: newCards_def lines_of_def js_simps js_trim_def isWhiteSpace_def cardOfLine_def
      enumerate_eq_zip cardSides_def splitFirstComma_def)



section \<open>Evaluating numbers\<close>

lemma bitlen_numeral:
  "bitlen 1 = 1"
  "bitlen (numeral (Num.Bit0 n)) = bitlen (numeral n) + 1"
  "bitlen (numeral (Num.Bit1 n)) = bitlen (numeral n) + 1"
  by (simp_all add: compute_bitlen[of 1] compute_bitlen[of "numeral (Num.Bit0 n)"]
      compute_bitlen[of "numeral (Num.Bit1 n)"])

lemma floor_rat_numeral: "\<lfloor>numeral a / numeral b :: rat\<rfloor> = numeral a div numeral b"
  using floor_divide_of_int_eq[of "numeral a" "numeral b", where ?'a = rat] by simp

lemma ceiling_rat_numeral: "\<lceil>numeral a / numeral b :: rat\<rceil> = - (- numeral a div numeral b)"
  using ceiling_divide_eq_div[of "numeral a" "numeral b", where ?'a = rat] by simp

lemmas number_eval =
  roundDouble_def ilog2_def pow2_def roundHalfEven_def Let_def bitlen_numeral
  floor_rat_numeral ceiling_rat_numeral fmul_def fdiv_def fsub_def fgt_def fle_def fge_def

section \<open>Comparisons\<close>

lemma fle_not_fgt: "fle x y \<Longrightarrow> \<not> fgt x y"
  by (cases x; cases y) (auto simp: fle_def fgt_def)

lemma fgt_not_fle: "fgt x y \<Longrightarrow> \<not> fle x y"
  by (cases x; cases y) (auto simp: fle_def fgt_def)

section \<open>The loop computes the sums over the contributing courses\<close>

lemma foldl_accumulate:
  "foldl (accumulate scale) (p, c) cs
   = (foldl fadd p (map (gradePoints scale) (filter contributes cs)),
      foldl fadd c (map credits (filter contributes cs)))"
  by (induction cs arbitrary: p c) (simp_all add: accumulate_def contributes_def)

lemma totalsOf_sums: "totalsOf scale cs = (currentPoints scale cs, currentCredits cs)"
  by (simp add: totalsOf_def foldl_accumulate currentPoints_def currentCredits_def fsum_def)

lemma maxGPA_values:
  "maxGPA Scale_4_0 = Fin 4" "maxGPA Scale_4_3 = Fin (4841369599423283 / 1125899906842624)"
  by (simp_all add: maxGPA_def number_eval)

lemma parseDecimal_examples:
  "parseDecimal (js ''4.5'') = Fin (9 / 2)"
  "parseDecimal (js ''3.5'') = Fin (7 / 2)"
  "parseDecimal (js ''3.9'') = Fin (8782019273372467 / 2251799813685248)"
  "parseDecimal (js ''2.0'') = Fin 2"
  by (simp_all add: parseDecimal_def js_simps isDigit_def digitsValue_def Let_def)
     (simp_all add: number_eval)


section \<open>Rounding keeps positive values positive\<close>

lemma pow2_powi: "pow2 k = 2 powi k"
  by (simp add: pow2_def power_int_def power_one_over inverse_eq_divide)

lemma pow2_pos: "0 < pow2 k"
  by (simp add: pow2_powi)

lemma pow2_mono: "j \<le> k \<Longrightarrow> pow2 j \<le> pow2 k"
  by (simp add: pow2_powi power_int_increasing)

lemma pow2_strict_mono: "j < k \<Longrightarrow> pow2 j < pow2 k"
  by (simp add: pow2_powi power_int_strict_increasing)

lemma pow2_less_cancel: "pow2 j < pow2 k \<Longrightarrow> j < k"
  using pow2_mono[of k j] by (cases "j < k") auto

lemma pow2_add: "pow2 (j + k) = pow2 j * pow2 k"
  by (simp add: pow2_powi power_int_add)

lemma pow2_nat: "pow2 (int n) = 2 ^ n"
  by (simp add: pow2_powi)

lemma ilog2_lower:
  assumes "0 < a"
  shows "pow2 (ilog2 a) \<le> a"
proof (cases "1 \<le> a")
  case True
  define n where "n = \<lfloor>a\<rfloor>"
  have n: "1 \<le> n" using True by (simp add: n_def le_floor_iff)
  then have b: "1 \<le> bitlen n" using bitlen_bounds[of n] bitlen_nonneg[of n]
    by (cases "bitlen n = 0") auto
  have "2 ^ nat (bitlen n - 1) \<le> n" using bitlen_bounds[of n] n by simp
  then have "(of_int (2 ^ nat (bitlen n - 1)) :: rat) \<le> of_int n" by (simp only: of_int_le_iff)
  also have "\<dots> \<le> a" by (simp add: n_def)
  finally have "(2 :: rat) ^ nat (bitlen n - 1) \<le> a" by simp
  moreover have "ilog2 a = bitlen n - 1" using True by (simp add: ilog2_def n_def)
  ultimately show ?thesis using b by (simp add: pow2_def)
next
  case False
  define n where "n = \<lceil>1 / a\<rceil> - 1"
  from False assms have "1 < 1 / a" by simp
  then have "1 < \<lceil>1 / a\<rceil>" by (simp add: less_ceiling_iff)
  then have n: "0 < n" by (simp add: n_def)
  then have b: "1 \<le> bitlen n" using bitlen_bounds[of n] bitlen_nonneg[of n]
    by (cases "bitlen n = 0") auto
  have "n < 2 ^ nat (bitlen n)" using bitlen_bounds[of n] n by simp
  then have "n + 1 \<le> 2 ^ nat (bitlen n)" by simp
  then have "(of_int (n + 1) :: rat) \<le> of_int (2 ^ nat (bitlen n))" by (simp only: of_int_le_iff)
  moreover have "1 / a \<le> of_int (n + 1)" by (simp add: n_def)
  ultimately have "1 / a \<le> 2 ^ nat (bitlen n)" by simp
  then have "1 / 2 ^ nat (bitlen n) \<le> a" using assms
    by (simp add: field_simps)
  moreover have "ilog2 a = - bitlen n" using False by (simp add: ilog2_def n_def)
  ultimately show ?thesis using b by (simp add: pow2_def)
qed

lemma roundHalfEven_ge: "of_int k \<le> r \<Longrightarrow> k \<le> roundHalfEven r"
proof -
  assume "of_int k \<le> r"
  then have "k \<le> \<lfloor>r\<rfloor>" by (simp add: le_floor_iff)
  then show ?thesis by (simp add: roundHalfEven_def Let_def)
qed

lemma roundDouble_positive:
  assumes "pow2 (- 1074) \<le> x"
  shows "fgt (roundDouble x) (Fin 0)"
proof -
  have x: "0 < x" using pow2_pos[of "- 1074"] assms by simp
  define q where "q = max (ilog2 x - 52) (- 1074)"
  define m where "m = roundHalfEven (x / pow2 q)"
  have "pow2 q \<le> x"
  proof (cases "ilog2 x - 52 \<le> - 1074")
    case True
    then show ?thesis using assms by (simp add: q_def max_def)
  next
    case False
    then have "q \<le> ilog2 x" by (simp add: q_def max_def)
    then have "pow2 q \<le> pow2 (ilog2 x)" by (rule pow2_mono)
    with ilog2_lower[OF x] show ?thesis by simp
  qed
  then have "of_int 1 \<le> x / pow2 q" using pow2_pos[of q] by (simp add: field_simps)
  then have m: "1 \<le> m" unfolding m_def by (rule roundHalfEven_ge)
  then have "0 < of_int m * pow2 q" using pow2_pos[of q] by simp
  then show ?thesis using x m
    by (simp add: roundDouble_def Let_def q_def[symmetric] m_def[symmetric] fgt_def)
qed

lemma isDouble_positive:
  assumes "isDouble (Fin a)" "0 < a"
  shows "pow2 (- 1074) \<le> a"
proof -
  define q where "q = max (ilog2 a - 52) (- 1074)"
  define m where "m = roundHalfEven (a / pow2 q)"
  from assms have r: "roundDouble a = Fin a" by (simp add: isDouble_def)
  have "0 \<le> a / pow2 q" using assms(2) pow2_pos[of q] by simp
  then have "of_int 0 \<le> a / pow2 q" by simp
  then have m0: "0 \<le> m" unfolding m_def by (rule roundHalfEven_ge)
  from r assms(2) have "m \<noteq> 0 \<and> a = of_int m * pow2 q"
    by (auto simp: roundDouble_def Let_def q_def[symmetric] m_def[symmetric] split: if_splits)
  with m0 have m: "1 \<le> m" and a: "a = of_int m * pow2 q" by simp_all
  have "pow2 (- 1074) \<le> pow2 q" by (rule pow2_mono) (simp add: q_def)
  also have "\<dots> = of_int 1 * pow2 q" by simp
  also have "\<dots> \<le> of_int m * pow2 q"
    using m pow2_pos[of q] by (intro mult_right_mono) simp_all
  finally show ?thesis using a by simp
qed

lemma fadd_positive:
  assumes "isDouble y" "fgt y (Fin 0)" "x = Fin 0 \<or> fgt x (Fin 0)"
  shows "fgt (fadd x y) (Fin 0)"
proof (cases y)
  case (Fin b)
  with assms(2) have b: "0 < b" by (simp add: fgt_def)
  with assms(1) Fin have lb: "pow2 (- 1074) \<le> b" by (simp add: isDouble_positive)
  show ?thesis
  proof (cases x)
    case (Fin a)
    with assms(3) have "0 \<le> a" by (auto simp: fgt_def)
    with lb have "pow2 (- 1074) \<le> a + b" by simp
    then show ?thesis using Fin \<open>y = Fin b\<close> by (simp add: roundDouble_positive)
  qed (use assms(3) Fin in \<open>auto simp: fgt_def\<close>)
qed (use assms in \<open>cases x; auto simp: fgt_def\<close>)+

lemma foldl_fadd_positive:
  assumes "\<forall>y \<in> set ys. isDouble y \<and> fgt y (Fin 0)" "x = Fin 0 \<or> fgt x (Fin 0)"
    "ys \<noteq> [] \<or> fgt x (Fin 0)"
  shows "fgt (foldl fadd x ys) (Fin 0)"
  using assms
proof (induction ys arbitrary: x)
  case Nil
  then show ?case by simp
next
  case (Cons y ys)
  then have "fgt (fadd x y) (Fin 0)" by (simp add: fadd_positive)
  with Cons show ?case by simp
qed

lemma currentCredits_positive:
  assumes "\<forall>c \<in> set cs. isDouble (credits c)" "filter contributes cs \<noteq> []"
  shows "fgt (currentCredits cs) (Fin 0)"
  unfolding currentCredits_def fsum_def
  by (rule foldl_fadd_positive) (use assms in \<open>auto simp: contributes_def\<close>)

lemma currentCredits_none: "filter contributes cs = [] \<Longrightarrow> currentCredits cs = Fin 0"
  by (simp add: currentCredits_def fsum_def)


section \<open>Rounding is idempotent\<close>

lemma ilog2_upper:
  assumes "0 < a"
  shows "a < pow2 (ilog2 a + 1)"
proof (cases "1 \<le> a")
  case True
  define n where "n = \<lfloor>a\<rfloor>"
  have n: "1 \<le> n" using True by (simp add: n_def le_floor_iff)
  then have b: "1 \<le> bitlen n" using bitlen_bounds[of n] bitlen_nonneg[of n]
    by (cases "bitlen n = 0") auto
  have "n < 2 ^ nat (bitlen n)" using bitlen_bounds[of n] n by simp
  then have "n + 1 \<le> 2 ^ nat (bitlen n)" by simp
  then have "(of_int (n + 1) :: rat) \<le> of_int (2 ^ nat (bitlen n))" by (simp only: of_int_le_iff)
  moreover have "a < of_int (n + 1)" using floor_correct[of a] by (simp add: n_def)
  ultimately have "a < 2 ^ nat (bitlen n)" by simp
  moreover have "ilog2 a + 1 = bitlen n" using True by (simp add: ilog2_def n_def)
  ultimately show ?thesis using b by (simp add: pow2_def)
next
  case False
  define n where "n = \<lceil>1 / a\<rceil> - 1"
  from False assms have "1 < 1 / a" by simp
  then have "1 < \<lceil>1 / a\<rceil>" by (simp add: less_ceiling_iff)
  then have n: "0 < n" by (simp add: n_def)
  then have b: "1 \<le> bitlen n" using bitlen_bounds[of n] bitlen_nonneg[of n]
    by (cases "bitlen n = 0") auto
  have "2 ^ nat (bitlen n - 1) \<le> n" using bitlen_bounds[of n] n by simp
  then have "(of_int (2 ^ nat (bitlen n - 1)) :: rat) \<le> of_int n" by (simp only: of_int_le_iff)
  then have "(2 :: rat) ^ nat (bitlen n - 1) \<le> of_int n" by (simp only: of_int_power of_int_numeral)
  moreover have "of_int n < 1 / a" unfolding n_def by linarith
  ultimately have "2 ^ nat (bitlen n - 1) < 1 / a" by (rule le_less_trans)
  then have "a < 1 / 2 ^ nat (bitlen n - 1)" using assms by (simp add: field_simps)
  moreover have "ilog2 a + 1 = - (bitlen n - 1)" using False by (simp add: ilog2_def n_def)
  moreover have "pow2 (- (bitlen n - 1)) = 1 / 2 ^ nat (bitlen n - 1)"
    using b by (cases "bitlen n = 1") (simp_all add: pow2_def)
  ultimately show ?thesis by simp
qed

lemma ilog2_pow2: "ilog2 (pow2 k) = k"
proof -
  have le: "pow2 (ilog2 (pow2 k)) \<le> pow2 k" by (rule ilog2_lower) (rule pow2_pos)
  have "\<not> k < ilog2 (pow2 k)"
  proof
    assume "k < ilog2 (pow2 k)"
    then have "pow2 k < pow2 (ilog2 (pow2 k))" by (rule pow2_strict_mono)
    with le show False by simp
  qed
  then have "ilog2 (pow2 k) \<le> k" by simp
  moreover have "pow2 k < pow2 (ilog2 (pow2 k) + 1)" by (rule ilog2_upper) (rule pow2_pos)
  then have "k < ilog2 (pow2 k) + 1" by (rule pow2_less_cancel)
  ultimately show ?thesis by simp
qed

lemma roundHalfEven_of_int: "roundHalfEven (of_int k) = k"
  by (simp add: roundHalfEven_def)

lemma roundHalfEven_le:
  assumes "r \<le> of_int k"
  shows "roundHalfEven r \<le> k"
proof (cases "r = of_int k")
  case True
  then show ?thesis by (simp add: roundHalfEven_of_int)
next
  case False
  with assms have "r < of_int k" by simp
  then have "\<lfloor>r\<rfloor> < k" by (simp add: floor_less_iff)
  then show ?thesis by (simp add: roundHalfEven_def Let_def)
qed

lemma roundDouble_fix:
  assumes "0 < v" "v < pow2 1024" "v = of_int k * pow2 (max (ilog2 v - 52) (- 1074))"
  shows "roundDouble v = Fin v"
proof -
  define q where "q = max (ilog2 v - 52) (- 1074)"
  have v: "v = of_int k * pow2 q" using assms(3) by (simp add: q_def)
  have "v / pow2 q = of_int k" using pow2_pos[of q] by (simp add: v)
  then have m: "roundHalfEven (v / pow2 q) = k" by (simp add: roundHalfEven_of_int)
  have k: "k \<noteq> 0" using assms(1) v by auto
  have kv: "of_int k * pow2 q = v" by (simp add: v)
  have "roundDouble v
        = (if pow2 1024 \<le> of_int k * pow2 q then PInf
           else if k = 0 then Fin 0 else Fin (of_int k * pow2 q))"
    using assms(1) unfolding roundDouble_def Let_def abs_of_pos[OF assms(1)] q_def[symmetric] m
    by simp
  then show ?thesis using assms(2) k by (simp add: kv)
qed

lemma roundDouble_idem:
  assumes "0 < x" "roundDouble x = Fin v"
  shows "roundDouble v = Fin v"
proof (cases "v = 0")
  case True
  then show ?thesis by (simp add: roundDouble_def)
next
  case False
  define e where "e = ilog2 x"
  define q where "q = max (e - 52) (- 1074)"
  define m where "m = roundHalfEven (x / pow2 q)"
  have q: "- 1074 \<le> q" "e - 52 \<le> q" by (simp_all add: q_def)
  from assms False have v: "v = of_int m * pow2 q" and lt: "v < pow2 1024" and m0: "m \<noteq> 0"
    by (auto simp: roundDouble_def Let_def e_def[symmetric] q_def[symmetric] m_def[symmetric]
        split: if_splits)
  have "of_int 0 \<le> x / pow2 q" using assms(1) pow2_pos[of q] by simp
  then have "0 \<le> m" unfolding m_def by (rule roundHalfEven_ge)
  with m0 have m1: "1 \<le> m" by simp
  then have vpos: "0 < v" using pow2_pos[of q] by (simp add: v)
  have "x < pow2 (e + 1)" unfolding e_def by (rule ilog2_upper[OF assms(1)])
  also have "\<dots> \<le> pow2 (53 + q)" by (rule pow2_mono) (use q in simp)
  also have "\<dots> = pow2 53 * pow2 q" by (rule pow2_add)
  finally have "x / pow2 q < pow2 53" using pow2_pos[of q] by (simp add: field_simps)
  then have "x / pow2 q \<le> of_int (2 ^ 53)" by (simp add: pow2_def)
  then have m53: "m \<le> 2 ^ 53" unfolding m_def by (rule roundHalfEven_le)
  define q' where "q' = max (ilog2 v - 52) (- 1074)"
  have "\<exists>k. v = of_int k * pow2 q'"
  proof (cases "m = 2 ^ 53")
    case True
    then have "v = pow2 53 * pow2 q" by (simp add: v pow2_def)
    then have v53: "v = pow2 (53 + q)" by (simp add: pow2_add)
    then have "ilog2 v = 53 + q" by (simp add: ilog2_pow2)
    then have "q' = q + 1" using q by (simp add: q'_def)
    moreover have "pow2 (53 + q) = pow2 52 * pow2 (q + 1)"
      using pow2_add[of 52 "q + 1"] by (simp add: add.commute add.left_commute)
    ultimately have "v = of_int (2 ^ 52) * pow2 q'" using v53 by (simp add: pow2_def)
    then show ?thesis ..
  next
    case False
    with m53 have "m < 2 ^ 53" by simp
    then have "(of_int m :: rat) < of_int (2 ^ 53)" by (simp only: of_int_less_iff)
    then have "of_int m * pow2 q < pow2 53 * pow2 q"
      using pow2_pos[of q] by (simp add: pow2_def)
    then have "v < pow2 (53 + q)" by (simp add: v pow2_add)
    moreover have "pow2 (ilog2 v) \<le> v" by (rule ilog2_lower[OF vpos])
    ultimately have "pow2 (ilog2 v) < pow2 (53 + q)" by simp
    then have "ilog2 v < 53 + q" by (rule pow2_less_cancel)
    then have le: "q' \<le> q" using q by (simp add: q'_def)
    have "pow2 q = pow2 (q - q') * pow2 q'" using pow2_add[of "q - q'" q'] by simp
    moreover have "pow2 (q - q') = of_int (2 ^ nat (q - q'))" using le by (simp add: pow2_def)
    ultimately have "v = of_int (m * 2 ^ nat (q - q')) * pow2 q'" by (simp add: v)
    then show ?thesis ..
  qed
  then obtain k where "v = of_int k * pow2 q'" ..
  then show ?thesis using vpos lt unfolding q'_def by (intro roundDouble_fix)
qed

lemma fadd_zero_rounded:
  assumes "0 \<le> x"
  shows "fadd (Fin 0) (roundDouble x) = roundDouble x"
proof (cases "x = 0")
  case True
  then show ?thesis by (simp add: roundDouble_def)
next
  case False
  with assms have x: "0 < x" by simp
  show ?thesis
  proof (cases "roundDouble x")
    case (Fin v)
    with roundDouble_idem[OF x] show ?thesis by simp
  next
    case NZero
    with x show ?thesis by (simp add: roundDouble_def Let_def split: if_splits)
  qed simp_all
qed

lemma fadd_commute: "fadd x y = fadd y x"
  by (cases x; cases y) (simp_all add: add.commute)


section \<open>Two summands commute\<close>

lemma roundDouble_nonneg:
  assumes "0 \<le> r"
  shows "\<not> isNegative (roundDouble r)"
proof (cases "r = 0")
  case True
  then show ?thesis by (simp add: roundDouble_def)
next
  case False
  with assms have r: "0 < r" by simp
  define q where "q = max (ilog2 r - 52) (- 1074)"
  have "of_int 0 \<le> r / pow2 q" using r pow2_pos[of q] by simp
  then have "0 \<le> roundHalfEven (r / pow2 q)" by (rule roundHalfEven_ge)
  then have "0 \<le> of_int (roundHalfEven (r / pow2 q)) * pow2 q" using pow2_pos[of q] by simp
  then show ?thesis using r
    unfolding roundDouble_def Let_def abs_of_pos[OF r] q_def[symmetric]
    by (simp add: not_less)
qed

lemma fadd_zero_fmul:
  assumes "\<not> isNegative x" "\<not> isNegative y"
  shows "fadd (Fin 0) (fmul x y) = fmul x y"
proof -
  have "0 \<le> magnitude x * magnitude y" by (cases x; cases y) simp_all
  then have "fadd (Fin 0) (roundDouble (magnitude x * magnitude y))
             = roundDouble (magnitude x * magnitude y)"
    by (rule fadd_zero_rounded)
  then show ?thesis using assms
    by (simp add: fmul_def signedInf_def signedZero_def Let_def roundDouble_def[of 0])
qed

lemma gradeValues_nonneg:
  assumes "map_of (gradeValues scale) g = Some v"
  shows "\<not> isNegative v"
proof -
  have "\<forall>w \<in> snd ` set (gradeValues scale). \<not> isNegative w"
    by (cases scale)
      (simp_all add: gradeValues_def GRADE_VALUES_4_0_def GRADE_VALUES_4_3_def
        roundDouble_nonneg)
  moreover from assms have "v \<in> snd ` set (gradeValues scale)"
    by (auto dest: map_of_SomeD intro: rev_image_eqI)
  ultimately show ?thesis by blast
qed

lemma fadd_zero_gradePoints:
  assumes "contributes c"
  shows "fadd (Fin 0) (gradePoints scale c) = gradePoints scale c"
proof (cases "map_of (gradeValues scale) (grade c)")
  case None
  then show ?thesis by (simp add: gradePoints_def)
next
  case (Some v)
  then have "\<not> isNegative v" by (rule gradeValues_nonneg)
  moreover have "\<not> isNegative (credits c)"
    using assms by (cases "credits c") (auto simp: contributes_def fgt_def)
  ultimately show ?thesis using Some by (simp add: gradePoints_def fadd_zero_fmul)
qed

lemma fadd_zero_credits:
  assumes "contributes c" "isDouble (credits c)"
  shows "fadd (Fin 0) (credits c) = credits c"
  using assms by (cases "credits c") (auto simp: contributes_def fgt_def isDouble_def)

lemma mset_pair:
  assumes "mset ys = mset [a, b]"
  shows "ys = [a, b] \<or> ys = [b, a]"
proof -
  from assms have "length ys = 2" using mset_eq_length by fastforce
  then obtain c d where ys: "ys = [c, d]"
    by (cases ys; cases "tl ys") auto
  with assms have "{#c, d#} = {#a, b#}" by simp
  then have "(c = a \<and> d = b) \<or> (c = b \<and> d = a)"
    by (auto simp: add_eq_conv_ex)
  with ys show ?thesis by auto
qed

lemma fsum_reorder:
  assumes "\<forall>x \<in> set xs. fadd (Fin 0) (f x) = f x" "mset ys = mset xs" "length xs \<le> 2"
  shows "fsum (map f ys) = fsum (map f xs)"
proof -
  consider "xs = []" | a where "xs = [a]" | a b where "xs = [a, b]"
    using assms(3) by (cases xs; cases "tl xs"; cases "tl (tl xs)") auto
  then show ?thesis
  proof cases
    case 1
    with assms(2) show ?thesis by simp
  next
    case 2
    with assms(2) show ?thesis by simp
  next
    case 3
    with assms(2) mset_pair[of ys a b] have "ys = [a, b] \<or> ys = [b, a]" by simp
    then show ?thesis
    proof
      assume "ys = [a, b]"
      with 3 show ?thesis by simp
    next
      assume ys: "ys = [b, a]"
      from assms(1) 3 have z: "fadd (Fin 0) (f a) = f a" "fadd (Fin 0) (f b) = f b" by simp_all
      have "fsum (map f ys) = fadd (f b) (f a)" by (simp add: ys fsum_def z)
      also have "\<dots> = fadd (f a) (f b)" by (rule fadd_commute)
      also have "\<dots> = fsum (map f xs)" by (simp add: 3 fsum_def z)
      finally show ?thesis .
    qed
  qed
qed

lemma gpa_two_contributing:
  assumes "\<forall>c \<in> set courses. isDouble (credits c)" "mset courses' = mset courses"
    "length (filter contributes courses) \<le> 2"
  shows "gpa courses' scale = gpa courses scale"
proof -
  have m: "mset (filter contributes courses') = mset (filter contributes courses)"
    using assms(2) by (simp only: mset_filter)
  have "currentPoints scale courses' = currentPoints scale courses"
    unfolding currentPoints_def
    by (rule fsum_reorder[OF _ m assms(3)]) (simp add: fadd_zero_gradePoints)
  moreover have "currentCredits courses' = currentCredits courses"
    unfolding currentCredits_def
    by (rule fsum_reorder[OF _ m assms(3)]) (use assms(1) in \<open>simp add: fadd_zero_credits\<close>)
  ultimately show ?thesis by (simp add: gpa_def totalsOf_sums)
qed


section \<open>Worked examples\<close>

lemma isDouble_examples: "isDouble (Fin 3)" "isDouble (Fin 1)" "isDouble (Fin 60)"
  by (simp_all add: isDouble_def number_eval)

lemmas sample_courses =
  course1_def courseA_def courseB_def courseC60_def courseAminus_def courseBminus_def
  courseCminus_def

lemma sample_contributes:
  "\<not> contributes course1" "contributes courseA" "contributes courseB" "contributes courseC60"
  "contributes courseAminus" "contributes courseBminus" "contributes courseCminus"
  by (simp_all add: contributes_def sample_courses js_simps fgt_def)

lemma sample_credits:
  "credits courseA = Fin 3" "credits courseB = Fin 3" "credits courseC60 = Fin 60"
  "credits courseAminus = Fin 1" "credits courseBminus = Fin 1" "credits courseCminus = Fin 1"
  by (simp_all add: sample_courses)

lemma sample_gradePoints:
  "gradePoints Scale_4_0 courseA = Fin 12"
  "gradePoints Scale_4_0 courseB = Fin 9"
  "gradePoints Scale_4_0 courseC60 = Fin 120"
  "gradePoints Scale_4_0 courseAminus = Fin (4165829655317709 / 1125899906842624)"
  "gradePoints Scale_4_0 courseBminus = Fin (3039929748475085 / 1125899906842624)"
  "gradePoints Scale_4_0 courseCminus = Fin (7656119366529843 / 4503599627370496)"
  by (simp_all add: gradePoints_def gradeValues_def GRADE_VALUES_4_0_def sample_courses js_simps)
     (simp_all add: number_eval)

lemma sample_sums:
  "currentPoints Scale_4_0 [courseA, courseB] = Fin 21"
  "currentCredits [courseA, courseB] = Fin 6"
  "currentPoints Scale_4_0 [courseC60] = Fin 120"
  "currentCredits [courseC60] = Fin 60"
  "currentPoints Scale_4_0 [courseAminus, courseBminus, courseCminus]
     = Fin (4559894622712627 / 562949953421312)"
  "currentPoints Scale_4_0 [courseAminus, courseCminus, courseBminus]
     = Fin (1139973655678157 / 140737488355328)"
  "currentCredits [courseAminus, courseBminus, courseCminus] = Fin 3"
  "currentCredits [courseAminus, courseCminus, courseBminus] = Fin 3"
  by (simp_all add: currentPoints_def currentCredits_def fsum_def sample_contributes
      sample_gradePoints sample_credits)
     (simp_all add: number_eval)

lemma sample_gpa:
  "gpa [courseA, courseB] Scale_4_0 = Fin (7 / 2)"
  "gpa [courseC60] Scale_4_0 = Fin 2"
  "gpa [courseAminus, courseBminus, courseCminus] Scale_4_0
     = Fin (6079859496950169 / 2251799813685248)"
  "gpa [courseAminus, courseCminus, courseBminus] Scale_4_0
     = Fin (6079859496950171 / 2251799813685248)"
  by (simp_all add: gpa_def totalsOf_sums sample_sums)
     (simp_all add: number_eval)

lemma sample_targets: "js ''4.5'' \<noteq> []" "js ''3.5'' \<noteq> []" "js ''3.9'' \<noteq> []"
  by (simp_all add: js_simps)


section \<open>Current GPA\<close>

text \<open>
  C1.  For every course list whose credits are binary64 values, and for both scales,
  \<open>gpa\<close> is 0 when no course contributes, and otherwise the quotient of the sum of
  grade points times credits by the sum of credits, both sums taken over exactly the
  courses with a non-empty grade and credits greater than 0, in list order.  \<open>gpa\<close> is
  a total function: there is no input on which it fails.
\<close>

theorem gpa_weighted_average:
  assumes "\<forall>c \<in> set courses. isDouble (credits c)"
  shows "gpa courses scale
         = (if filter contributes courses = [] then Fin 0 else weightedAverage scale courses)"
proof (cases "filter contributes courses = []")
  case True
  then show ?thesis
    by (simp add: gpa_def totalsOf_sums currentCredits_none fgt_def)
next
  case False
  with assms have "fgt (currentCredits courses) (Fin 0)" by (rule currentCredits_positive)
  with False show ?thesis by (simp add: gpa_def totalsOf_sums weightedAverage_def)
qed

theorem gpa_weighted_average_witness:
  "isDouble (credits courseA) \<and> isDouble (credits courseB)
   \<and> filter contributes [courseA, courseB] = [courseA, courseB]
   \<and> gpa [courseA, courseB] Scale_4_0 = weightedAverage Scale_4_0 [courseA, courseB]
   \<and> weightedAverage Scale_4_0 [courseA, courseB] = Fin (7 / 2)
   \<and> isDouble (credits course1) \<and> filter contributes [course1] = []
   \<and> gpa [course1] Scale_4_0 = Fin 0"
proof -
  have d: "isDouble (credits courseA)" "isDouble (credits courseB)" "isDouble (credits course1)"
    by (simp_all add: sample_courses isDouble_examples)
  have f: "filter contributes [courseA, courseB] = [courseA, courseB]"
    "filter contributes [course1] = []"
    by (simp_all add: sample_contributes)
  from gpa_weighted_average[of "[courseA, courseB]" Scale_4_0] d f
  have a: "gpa [courseA, courseB] Scale_4_0 = weightedAverage Scale_4_0 [courseA, courseB]"
    by simp
  from gpa_weighted_average[of "[course1]" Scale_4_0] d f
  have b: "gpa [course1] Scale_4_0 = Fin 0"
    by simp
  from a b d f sample_gpa(1) show ?thesis by simp
qed

section \<open>Reordering the course list\<close>

text \<open>
  C9 (as amended).  \<open>gpa\<close> depends only on the sequence of the contributing courses:
  two course lists with the same contributing courses in the same relative order have
  the same GPA, wherever the other courses stand.  When at most two courses contribute
  (and the credits are binary64 values), every permutation of the list has the same
  GPA.
\<close>

theorem gpa_reordering:
  "(filter contributes courses' = filter contributes courses
      \<longrightarrow> gpa courses' scale = gpa courses scale)
   \<and> ((\<forall>c \<in> set courses. isDouble (credits c)) \<and> mset courses' = mset courses
        \<and> length (filter contributes courses) \<le> 2
      \<longrightarrow> gpa courses' scale = gpa courses scale)"
  using gpa_two_contributing
  by (auto simp: gpa_def totalsOf_sums currentPoints_def currentCredits_def)

theorem gpa_reordering_witness:
  "filter contributes [course1, courseA, courseB] = filter contributes [courseA, course1, courseB]
   \<and> gpa [course1, courseA, courseB] Scale_4_0 = gpa [courseA, course1, courseB] Scale_4_0
   \<and> isDouble (credits courseA) \<and> isDouble (credits courseB)
   \<and> mset [courseB, courseA] = mset [courseA, courseB]
   \<and> length (filter contributes [courseA, courseB]) = 2
   \<and> gpa [courseB, courseA] Scale_4_0 = gpa [courseA, courseB] Scale_4_0"
proof -
  have d: "isDouble (credits courseA)" "isDouble (credits courseB)"
    by (simp_all add: sample_courses isDouble_examples)
  have f: "filter contributes [course1, courseA, courseB]
           = filter contributes [courseA, course1, courseB]"
    "length (filter contributes [courseA, courseB]) = 2"
    by (simp_all add: sample_contributes)
  have m: "mset [courseB, courseA] = mset [courseA, courseB]" by simp
  from gpa_reordering[of "[course1, courseA, courseB]" "[courseA, course1, courseB]" Scale_4_0] f
  have a: "gpa [course1, courseA, courseB] Scale_4_0 = gpa [courseA, course1, courseB] Scale_4_0"
    by simp
  from gpa_reordering[of "[courseB, courseA]" "[courseA, courseB]" Scale_4_0] d f(2) m
  have b: "gpa [courseB, courseA] Scale_4_0 = gpa [courseA, courseB] Scale_4_0"
    by simp
  from a b d f m show ?thesis by simp
qed

text \<open>
  The claim as written fails: three one-credit courses graded A-, B- and C- have the
  GPA 2.6999999999999997 in this order and 2.7000000000000006 with the last two
  exchanged, because the sums are rounded after each addition.
\<close>

theorem gpa_depends_on_order:
  "gpa [courseAminus, courseBminus, courseCminus] Scale_4_0
     = Fin (6079859496950169 / 2251799813685248)
   \<and> gpa [courseAminus, courseCminus, courseBminus] Scale_4_0
     = Fin (6079859496950171 / 2251799813685248)
   \<and> mset [courseAminus, courseCminus, courseBminus]
     = mset [courseAminus, courseBminus, courseCminus]"
  by (simp add: sample_gpa)

section \<open>Target analysis\<close>

text \<open>
  C3.  When the target parses as a number greater than the maximum of the scale (4.0,
  or the binary64 value of 4.3), the analysis is not possible, with the message that
  the target exceeds that maximum and no required GPA; the result does not depend on
  the courses or on the total credits required.
\<close>

theorem target_above_maximum:
  assumes "targetGPA \<noteq> []" "\<not> isNaN (parseFloat targetGPA)"
    "fgt (parseFloat targetGPA) (maxGPA scale)"
  shows "targetGPAAnalysis parseFloat targetGPA scale courses totalCreditsRequired
         = Some \<lparr>possible = False, message = TargetExceedsMaximum (maxGPA scale),
                  requiredGPA = Missing\<rparr>
         \<and> maxGPA Scale_4_0 = Fin 4
         \<and> maxGPA Scale_4_3 = Fin (4841369599423283 / 1125899906842624)"
  using assms by (simp add: targetGPAAnalysis_def maxGPA_values)

theorem target_above_maximum_witness:
  "js ''4.5'' \<noteq> [] \<and> \<not> isNaN (parseDecimal (js ''4.5''))
   \<and> fgt (parseDecimal (js ''4.5'')) (maxGPA Scale_4_0)
   \<and> targetGPAAnalysis parseDecimal (js ''4.5'') Scale_4_0 [courseA, courseB] (Fin 120)
     = Some \<lparr>possible = False, message = TargetExceedsMaximum (Fin 4), requiredGPA = Missing\<rparr>"
proof -
  have h: "js ''4.5'' \<noteq> []" "\<not> isNaN (parseDecimal (js ''4.5''))"
    "fgt (parseDecimal (js ''4.5'')) (maxGPA Scale_4_0)"
    by (simp_all add: sample_targets parseDecimal_examples maxGPA_values fgt_def)
  from target_above_maximum[where targetGPA = "js ''4.5''" and parseFloat = parseDecimal
      and scale = Scale_4_0 and courses = "[courseA, courseB]"
      and totalCreditsRequired = "Fin 120"] h
  show ?thesis by (simp add: maxGPA_values)
qed

text \<open>
  C4.  When the target parses as a number not above the maximum and the total credits
  required minus the credits of the contributing courses is at most 0, the analysis is
  possible exactly when the current GPA is at least the target, and its required GPA
  is null.
\<close>

theorem no_credits_remaining:
  assumes "targetGPA \<noteq> []" "\<not> isNaN (parseFloat targetGPA)"
    "fle (parseFloat targetGPA) (maxGPA scale)"
    "fle (fsub totalCreditsRequired (currentCredits courses)) (Fin 0)"
  shows "targetGPAAnalysis parseFloat targetGPA scale courses totalCreditsRequired
         = Some \<lparr>possible = fge (gpa courses scale) (parseFloat targetGPA),
                  message = (if fge (gpa courses scale) (parseFloat targetGPA)
                             then TargetAchieved else TargetNotAchievable),
                  requiredGPA = Null\<rparr>"
  using assms fle_not_fgt[OF assms(3)]
  by (simp add: targetGPAAnalysis_def totalsOf_sums)

theorem no_credits_remaining_witness:
  "js ''3.5'' \<noteq> [] \<and> \<not> isNaN (parseDecimal (js ''3.5''))
   \<and> fle (parseDecimal (js ''3.5'')) (maxGPA Scale_4_0)
   \<and> fle (fsub (Fin 6) (currentCredits [courseA, courseB])) (Fin 0)
   \<and> targetGPAAnalysis parseDecimal (js ''3.5'') Scale_4_0 [courseA, courseB] (Fin 6)
     = Some \<lparr>possible = True, message = TargetAchieved, requiredGPA = Null\<rparr>"
proof -
  have h: "js ''3.5'' \<noteq> []" "\<not> isNaN (parseDecimal (js ''3.5''))"
    "fle (parseDecimal (js ''3.5'')) (maxGPA Scale_4_0)"
    "fle (fsub (Fin 6) (currentCredits [courseA, courseB])) (Fin 0)"
    by (simp_all add: sample_targets parseDecimal_examples maxGPA_values sample_sums fle_def
        fsub_def roundDouble_def)
  have g: "fge (gpa [courseA, courseB] Scale_4_0) (parseDecimal (js ''3.5''))"
    by (simp add: sample_gpa parseDecimal_examples fge_def fle_def)
  from no_credits_remaining[where targetGPA = "js ''3.5''" and parseFloat = parseDecimal
      and scale = Scale_4_0 and courses = "[courseA, courseB]"
      and totalCreditsRequired = "Fin 6"] h g
  show ?thesis by simp
qed

text \<open>
  C2.  When the target parses as a number not above the maximum and the remaining
  credits (total credits required minus the credits of the contributing courses) are
  greater than 0, the required GPA for the remaining credits is the target times the
  total credits required, minus the grade points of the contributing courses, divided
  by the remaining credits.  If it exceeds the maximum, the analysis is not possible
  and reports it; if it is below 0, the analysis is possible with required GPA 0;
  otherwise the analysis is possible and reports it.
\<close>

theorem required_for_remaining:
  assumes "targetGPA \<noteq> []" "\<not> isNaN (parseFloat targetGPA)"
    "fle (parseFloat targetGPA) (maxGPA scale)"
    "fgt (fsub totalCreditsRequired (currentCredits courses)) (Fin 0)"
  shows "targetGPAAnalysis parseFloat targetGPA scale courses totalCreditsRequired
         = (let remainingCredits = fsub totalCreditsRequired (currentCredits courses);
                requiredRemaining =
                  fdiv (fsub (fmul (parseFloat targetGPA) totalCreditsRequired)
                             (currentPoints scale courses))
                       remainingCredits
            in if fgt requiredRemaining (maxGPA scale)
               then Some \<lparr>possible = False, message = ImpossibleWouldNeed requiredRemaining,
                           requiredGPA = Figure requiredRemaining\<rparr>
               else if flt requiredRemaining (Fin 0)
               then Some \<lparr>possible = True, message = TargetAlreadyExceeded,
                           requiredGPA = Figure (Fin 0)\<rparr>
               else Some \<lparr>possible = True,
                           message = NeedInRemaining requiredRemaining remainingCredits,
                           requiredGPA = Figure requiredRemaining\<rparr>)"
  using assms fle_not_fgt[OF assms(3)] fgt_not_fle[OF assms(4)]
  by (simp add: targetGPAAnalysis_def totalsOf_sums Let_def)

theorem required_for_remaining_witness:
  "js ''3.5'' \<noteq> [] \<and> \<not> isNaN (parseDecimal (js ''3.5''))
   \<and> fle (parseDecimal (js ''3.5'')) (maxGPA Scale_4_0)
   \<and> fgt (fsub (Fin 120) (currentCredits [courseA, courseB])) (Fin 0)
   \<and> targetGPAAnalysis parseDecimal (js ''3.5'') Scale_4_0 [courseA, courseB] (Fin 120)
     = Some \<lparr>possible = True, message = NeedInRemaining (Fin (7 / 2)) (Fin 114),
              requiredGPA = Figure (Fin (7 / 2))\<rparr>
   \<and> js ''3.9'' \<noteq> [] \<and> \<not> isNaN (parseDecimal (js ''3.9''))
   \<and> fle (parseDecimal (js ''3.9'')) (maxGPA Scale_4_0)
   \<and> fgt (fsub (Fin 120) (currentCredits [courseC60])) (Fin 0)
   \<and> targetGPAAnalysis parseDecimal (js ''3.9'') Scale_4_0 [courseC60] (Fin 120)
     = Some \<lparr>possible = False,
              message = ImpossibleWouldNeed (Fin (6530219459687219 / 1125899906842624)),
              requiredGPA = Figure (Fin (6530219459687219 / 1125899906842624))\<rparr>"
proof -
  have r: "fsub (Fin 120) (Fin 6) = Fin 114" "fsub (Fin 120) (Fin 60) = Fin 60"
    by (simp_all add: number_eval)
  have h: "js ''3.5'' \<noteq> []" "\<not> isNaN (parseDecimal (js ''3.5''))"
    "fle (parseDecimal (js ''3.5'')) (maxGPA Scale_4_0)"
    "fgt (fsub (Fin 120) (currentCredits [courseA, courseB])) (Fin 0)"
    by (simp_all add: sample_targets parseDecimal_examples maxGPA_values sample_sums r fle_def
        fgt_def)
  have k: "js ''3.9'' \<noteq> []" "\<not> isNaN (parseDecimal (js ''3.9''))"
    "fle (parseDecimal (js ''3.9'')) (maxGPA Scale_4_0)"
    "fgt (fsub (Fin 120) (currentCredits [courseC60])) (Fin 0)"
    by (simp_all add: sample_targets parseDecimal_examples maxGPA_values sample_sums r fle_def
        fgt_def)
  have a: "fdiv (fsub (fmul (Fin (7 / 2)) (Fin 120)) (Fin 21)) (Fin 114) = Fin (7 / 2)"
    by (simp add: number_eval)
  have b: "fdiv (fsub (fmul (Fin (8782019273372467 / 2251799813685248)) (Fin 120)) (Fin 120))
             (Fin 60) = Fin (6530219459687219 / 1125899906842624)"
    by (simp add: number_eval)
  from required_for_remaining[where targetGPA = "js ''3.5''" and parseFloat = parseDecimal
      and scale = Scale_4_0 and courses = "[courseA, courseB]"
      and totalCreditsRequired = "Fin 120"] h
  have x: "targetGPAAnalysis parseDecimal (js ''3.5'') Scale_4_0 [courseA, courseB] (Fin 120)
     = Some \<lparr>possible = True, message = NeedInRemaining (Fin (7 / 2)) (Fin 114),
              requiredGPA = Figure (Fin (7 / 2))\<rparr>"
    by (simp add: parseDecimal_examples sample_sums r a maxGPA_values fgt_def Let_def)
  from required_for_remaining[where targetGPA = "js ''3.9''" and parseFloat = parseDecimal
      and scale = Scale_4_0 and courses = "[courseC60]"
      and totalCreditsRequired = "Fin 120"] k
  have y: "targetGPAAnalysis parseDecimal (js ''3.9'') Scale_4_0 [courseC60] (Fin 120)
     = Some \<lparr>possible = False,
              message = ImpossibleWouldNeed (Fin (6530219459687219 / 1125899906842624)),
              requiredGPA = Figure (Fin (6530219459687219 / 1125899906842624))\<rparr>"
    by (simp add: parseDecimal_examples sample_sums r b maxGPA_values fgt_def Let_def)
  from h k x y show ?thesis by simp
qed

section \<open>The course list keeps an entry\<close>

lemma deleteCourse_single: "length cs = 1 \<Longrightarrow> deleteCourse i cs = cs"
  by (simp add: deleteCourse_def)

lemma handleEvent_keeps:
  assumes "cs \<noteq> []" "distinct (map course_id cs)" "keepsIds cs e"
  shows "handleEvent cs e \<noteq> [] \<and> distinct (map course_id (handleEvent cs e))"
proof (cases e)
  case (AddCourse now)
  with assms show ?thesis by (simp add: addCourse_def)
next
  case (UpdateCourse i u)
  with assms(3) have u: "upd_id u = None" by simp
  have ids: "map course_id (updateCourse i u cs) = map course_id cs"
    by (induction cs) (simp_all add: updateCourse_def merge_def u)
  have "updateCourse i u cs \<noteq> []" using assms(1) by (simp add: updateCourse_def)
  with ids assms(2) UpdateCourse show ?thesis by simp
next
  case (DeleteCourse i)
  show ?thesis
  proof (cases "length cs > 1")
    case False
    with assms DeleteCourse show ?thesis by (simp add: deleteCourse_def)
  next
    case True
    then obtain a b r where cs: "cs = a # b # r" by (cases cs; cases "tl cs") auto
    with assms(2) have "course_id a \<noteq> course_id b" by auto
    then have "filter (\<lambda>c. course_id c \<noteq> i) cs \<noteq> []" unfolding cs by auto
    moreover have "distinct (map course_id (filter (\<lambda>c. course_id c \<noteq> i) cs))"
      using assms(2) by (simp add: distinct_map_filter)
    ultimately show ?thesis using DeleteCourse True by (simp add: deleteCourse_def)
  qed
qed

lemma runEvents_keeps:
  "cs \<noteq> [] \<Longrightarrow> distinct (map course_id cs) \<Longrightarrow> keepIds es cs \<Longrightarrow>
   runEvents es cs \<noteq> [] \<and> distinct (map course_id (runEvents es cs))"
proof (induction es arbitrary: cs)
  case Nil
  then show ?case by (simp add: runEvents_def)
next
  case (Cons e es)
  from Cons.prems have k: "keepsIds cs e" and ks: "keepIds es (handleEvent cs e)" by simp_all
  from handleEvent_keeps[OF Cons.prems(1,2) k]
  have "handleEvent cs e \<noteq> []" "distinct (map course_id (handleEvent cs e))" by simp_all
  from Cons.IH[OF this ks] show ?case by (simp add: runEvents_def)
qed

text \<open>
  With pairwise distinct ids the guard of \<open>deleteCourse\<close> does what it is there for:
  deleting from a list of one course leaves the list as it is, and from a non-empty
  list every run of events that keeps the ids distinct ends in a non-empty list.
\<close>

lemma distinct_ids_keep_an_entry:
  "(length cs = 1 \<longrightarrow> deleteCourse i cs = cs)
   \<and> (cs \<noteq> [] \<and> distinct (map course_id cs) \<and> keepIds es cs \<longrightarrow> runEvents es cs \<noteq> [])"
  using deleteCourse_single runEvents_keeps by blast

text \<open>
  C8.  The course list is to keep at least one entry after any sequence of add, update
  and delete operations on a non-empty list.  The code does not: the id of an added
  course is the reading of the clock, so two courses added at the same reading share
  their id, and \<open>deleteCourse\<close> then finds more than one course and filters out both.
  From the single course \<open>course1\<close>, two adds at the reading 1700000000000 give three
  courses; deleting \<open>course1\<close> leaves the two that share an id, and deleting that id
  leaves no course at all.
\<close>

theorem same_clock_reading_empties_list:
  "runEvents [AddCourse 1700000000000, AddCourse 1700000000000, DeleteCourse (js ''1'')]
     [course1]
     = [\<lparr>course_id = js ''1700000000000'', course_name = [], grade = [], credits = Fin 0\<rparr>,
        \<lparr>course_id = js ''1700000000000'', course_name = [], grade = [], credits = Fin 0\<rparr>]
   \<and> runEvents [AddCourse 1700000000000, AddCourse 1700000000000, DeleteCourse (js ''1''),
                DeleteCourse (js ''1700000000000'')] [course1] = []"
  by (simp add: runEvents_def addCourse_def deleteCourse_def course1_def js_simps toString.simps)

section \<open>Deck deletion\<close>

text \<open>
  C10.  \<open>deleteDeck\<close> has no guard at all: whatever the collection, no deck with the given
  id is left, every other deck is kept in its place, and deleting the only deck of a
  one-deck collection yields the empty collection.
\<close>

theorem deleteDeck_unconditional:
  "deck_id d \<notin> deck_id ` set (deleteDeck (deck_id d) ds)
   \<and> deleteDeck (deck_id d) ds = filter (\<lambda>x. deck_id x \<noteq> deck_id d) ds
   \<and> deleteDeck (deck_id d) [d] = []"
  by (auto simp: deleteDeck_def)
end
